theory Spec2Isabelle
  imports Main "HOL-Library.Sublist"
begin

section \<open>JavaScript values, errors and outcomes\<close>

text \<open>
  A value of TypeScript type \<open>unknown\<close> that came out of a body parser or of
  \<open>JSON.parse\<close>. An object is its list of own properties; \<open>undefined\<close> is the
  absence of a value (\<open>None\<close> of an option), never a \<open>json\<close>.
\<close>

datatype json =
    JNull
  | JBool bool
  | JNum int
  | JStr string
  | JArr "json list"
  | JObj "(string \<times> json) list"

text \<open>A thrown JavaScript error: the name of its class and its message.\<close>

datatype js_error = JsError string string

text \<open>\<open>String(error)\<close>, that is \<open>Error.prototype.toString\<close>.\<close>

fun String_error :: "js_error \<Rightarrow> string" where
  "String_error (JsError n m) =
     (if m = [] then n else if n = [] then m else n @ '': '' @ m)"

text \<open>What a call of an \<open>async\<close> method gives its caller: it returns, or it throws.\<close>

datatype 'a outcome = Returned 'a | Threw js_error

text \<open>\<open>a ?? b\<close> takes \<open>b\<close> when \<open>a\<close> is \<open>undefined\<close> or \<open>null\<close>.\<close>

fun nullish :: "json option \<Rightarrow> json option" where
  "nullish None = None"
| "nullish (Some JNull) = None"
| "nullish (Some v) = Some v"

section \<open>Client authentication middleware (clientAuth.ts)\<close>

text \<open>
  Modelled from the spec: the type \<open>OAuthClientInformationFull\<close> of shared/auth.ts is
  not among the sources. The record holds the three fields the middleware reads:
  the identifier, the optional secret and the optional expiry in epoch seconds.
\<close>

record client_info =
  client_id :: string
  client_secret :: "string option"
  client_secret_expires_at :: "int option"

text \<open>
  Modelled from the spec: the error classes of server/auth/errors.ts are not among the
  sources. An OAuth error has a kind and a description and serialises to
  \<open>{error, error_description}\<close>. The description of an \<open>InvalidRequestError\<close> raised by
  the middleware is \<open>String(result.error)\<close>, the rendering of the Zod failure; the
  model keeps the failure itself.
\<close>

datatype zod_issue = BodyNotObject | ClientIdNotString | ClientSecretNotString

datatype oauth_error =
    InvalidRequestError zod_issue
  | InvalidClientError string
  | ServerError string

fun errorCode :: "oauth_error \<Rightarrow> string" where
  "errorCode (InvalidRequestError _) = ''invalid_request''"
| "errorCode (InvalidClientError _) = ''invalid_client''"
| "errorCode (ServerError _) = ''server_error''"

fun isServerError :: "oauth_error \<Rightarrow> bool" where
  "isServerError (ServerError _) = True"
| "isServerError _ = False"

text \<open>What the store's \<open>getClient\<close> may throw: an OAuth error or anything else.\<close>

datatype thrown = ThrownOAuth oauth_error | ThrownOther

type_synonym clients_store = "string \<Rightarrow> thrown + client_info option"

text \<open>
  \<open>ClientAuthenticatedRequestSchema.safeParse(req.body)\<close>: the body is an object whose
  \<open>client_id\<close> is a string and whose \<open>client_secret\<close> is a string or missing.
\<close>

fun safeParse :: "json option \<Rightarrow> zod_issue + (string \<times> string option)" where
  "safeParse (Some (JObj kvs)) =
     (case map_of kvs ''client_id'' of
        Some (JStr cid) \<Rightarrow>
          (case map_of kvs ''client_secret'' of
             None \<Rightarrow> Inr (cid, None)
           | Some (JStr s) \<Rightarrow> Inr (cid, Some s)
           | Some _ \<Rightarrow> Inl ClientSecretNotString)
      | _ \<Rightarrow> Inl ClientIdNotString)"
| "safeParse _ = Inl BodyNotObject"

text \<open>JavaScript truthiness of an optional string and of an optional number.\<close>

fun truthy_string :: "string option \<Rightarrow> bool" where
  "truthy_string None = False"
| "truthy_string (Some s) = (s \<noteq> [])"

fun truthy_number :: "int option \<Rightarrow> bool" where
  "truthy_number None = False"
| "truthy_number (Some n) = (n \<noteq> 0)"

text \<open>
  The \<open>try\<close> block of the handler. \<open>now_ms\<close> is \<open>Date.now()\<close>; \<open>Math.floor(now_ms / 1000)\<close>
  is \<open>now_ms div 1000\<close>. The checks come in the order of the source: secret required,
  secret equal, secret expired.
\<close>

definition authenticate :: "clients_store \<Rightarrow> int \<Rightarrow> json option \<Rightarrow> thrown + client_info" where
  "authenticate getClient now_ms body =
     (case safeParse body of
        Inl issue \<Rightarrow> Inl (ThrownOAuth (InvalidRequestError issue))
      | Inr (cid, csecret) \<Rightarrow>
          (case getClient cid of
             Inl t \<Rightarrow> Inl t
           | Inr None \<Rightarrow> Inl (ThrownOAuth (InvalidClientError ''Invalid client_id''))
           | Inr (Some client) \<Rightarrow>
               if truthy_string (client_secret client) then
                 if \<not> truthy_string csecret then
                   Inl (ThrownOAuth (InvalidClientError ''Client secret is required''))
                 else if client_secret client \<noteq> csecret then
                   Inl (ThrownOAuth (InvalidClientError ''Invalid client_secret''))
                 else if truthy_number (client_secret_expires_at client)
                       \<and> the (client_secret_expires_at client) < now_ms div 1000 then
                   Inl (ThrownOAuth (InvalidClientError ''Client secret has expired''))
                 else Inr client
               else Inr client))"

text \<open>
  What the handler does with the request: it attaches the client and calls \<open>next()\<close>, or
  it answers with a status and the serialised error.
\<close>

datatype handler_result = Next client_info | Respond nat oauth_error

definition authenticateClient :: "clients_store \<Rightarrow> int \<Rightarrow> json option \<Rightarrow> handler_result" where
  "authenticateClient getClient now_ms body =
     (case authenticate getClient now_ms body of
        Inr client \<Rightarrow> Next client
      | Inl (ThrownOAuth e) \<Rightarrow> Respond (if isServerError e then 500 else 400) e
      | Inl ThrownOther \<Rightarrow> Respond 500 (ServerError ''Internal Server Error''))"

text \<open>A request body with a string \<open>client_id\<close> and an optional string \<open>client_secret\<close>.\<close>

definition credentials :: "string \<Rightarrow> string option \<Rightarrow> json option" where
  "credentials cid csecret =
     Some (JObj ((''client_id'', JStr cid) #
                 (case csecret of None \<Rightarrow> [] | Some s \<Rightarrow> [(''client_secret'', JStr s)])))"

text \<open>A store that knows one client.\<close>

definition single_store :: "client_info \<Rightarrow> clients_store" where
  "single_store c cid = Inr (if cid = client_id c then Some c else None)"

section \<open>What the transports take from their environment\<close>

text \<open>The result of \<open>contentType.parse\<close>: the media type, lower-cased, and the \<open>charset\<close> parameter.\<close>

record content_type =
  ctype :: string
  charset :: "string option"

text \<open>
  The functions the transports call and this repository does not define:
  \<open>JSON.parse\<close>, \<open>JSON.stringify\<close>, the conversion \<open>String(v)\<close> of a template literal,
  \<open>JSONRPCMessageSchema.parse\<close> of types.ts (it returns the validated message or throws),
  \<open>contentType.parse\<close> of the content-type package, and the lookup of a decoder for a
  character encoding inside the raw-body package. They are parameters of the model.
\<close>

record externals =
  JSON_parse :: "string \<Rightarrow> js_error + json"
  JSON_stringify :: "json \<Rightarrow> string"
  String_value :: "json \<Rightarrow> string"
  schema_parse :: "json \<Rightarrow> js_error + json"
  contentType_parse :: "string \<Rightarrow> js_error + content_type"
  getDecoder :: "string \<Rightarrow> (string \<Rightarrow> string) option"

text \<open>\<open>MAXIMUM_MESSAGE_SIZE = "4mb"\<close>, in bytes.\<close>

definition MAXIMUM_MESSAGE_SIZE :: nat where
  "MAXIMUM_MESSAGE_SIZE = 4 * 1024 * 1024"

text \<open>
  \<open>getRawBody(req, {limit, encoding})\<close>: it refuses an encoding it cannot decode, refuses
  a body longer than the limit, and otherwise gives the decoded text.
\<close>

definition getRawBody :: "externals \<Rightarrow> string \<Rightarrow> nat \<Rightarrow> string \<Rightarrow> js_error + string" where
  "getRawBody ext bytes limit encoding =
     (case getDecoder ext encoding of
        None \<Rightarrow> Inl (JsError ''UnsupportedMediaTypeError'' ''specified encoding unsupported'')
      | Some decode \<Rightarrow>
          if limit < length bytes
          then Inl (JsError ''PayloadTooLargeError'' ''request entity too large'')
          else Inr (decode bytes))"

text \<open>An inbound POST request: its \<open>content-type\<close> header, if any, and the bytes of its body.\<close>

record post_request =
  content_type_header :: "string option"
  body_bytes :: string

text \<open>The answer to a POST request: status and body.\<close>

type_synonym reply = "nat \<times> string"

text \<open>
  A JavaScript string is a sequence of UTF-16 code units; a code unit is held as a
  number, of which the low 16 bits count. \<open>js\<close> gives the JavaScript string of an ASCII
  text.
\<close>

type_synonym js_string = "nat list"

definition js :: "string \<Rightarrow> js_string" where
  "js s = map of_char s"

text \<open>
  \<open>encodeURI\<close>: a code unit that is a letter, a digit or one of
  \<open>; / ? : @ & = + $ , - _ . ! ~ * ' ( ) #\<close> stays; any other code point is written as
  the \<open>%XX\<close> of each byte of its UTF-8 encoding, a surrogate pair counting as one code
  point; a surrogate without its partner throws \<open>URIError\<close>.
\<close>

definition unescaped_chars :: string where
  "unescaped_chars =
     ''ABCDEFGHIJKLMNOPQRSTUVWXYZabcdefghijklmnopqrstuvwxyz0123456789;/?:@&=+$,-_.!~*()#''
     @ [CHR 0x27]"

definition uri_unescaped :: "char \<Rightarrow> bool" where
  "uri_unescaped c = (c \<in> set unescaped_chars)"

definition hex_digit :: "nat \<Rightarrow> char" where
  "hex_digit n = ''0123456789ABCDEF'' ! (n mod 16)"

definition percent_encode :: "nat \<Rightarrow> string" where
  "percent_encode octet = [CHR ''%'', hex_digit (octet div 16), hex_digit (octet mod 16)]"

definition utf8 :: "nat \<Rightarrow> nat list" where
  "utf8 cp =
     (if cp < 0x80 then [cp]
      else if cp < 0x800 then [0xC0 + cp div 64, 0x80 + cp mod 64]
      else if cp < 0x10000 then
        [0xE0 + cp div 4096, 0x80 + (cp div 64) mod 64, 0x80 + cp mod 64]
      else
        [0xF0 + cp div 262144, 0x80 + (cp div 4096) mod 64, 0x80 + (cp div 64) mod 64,
         0x80 + cp mod 64])"

definition escape :: "nat \<Rightarrow> string" where
  "escape cp = concat (map percent_encode (utf8 cp))"

definition URIError :: js_error where
  "URIError = JsError ''URIError'' ''URI malformed''"

fun prepend :: "string \<Rightarrow> js_error + string \<Rightarrow> js_error + string" where
  "prepend s (Inl e) = Inl e"
| "prepend s (Inr r) = Inr (s @ r)"

fun encodeURI :: "js_string \<Rightarrow> js_error + string" where
  "encodeURI [] = Inr []"
| "encodeURI (u # us) =
     (let n = u mod 0x10000 in
      case find (\<lambda>c. of_char c = n) unescaped_chars of
        Some c \<Rightarrow> prepend [c] (encodeURI us)
      | None \<Rightarrow>
          if 0xD800 \<le> n \<and> n \<le> 0xDBFF then
            (case us of
               [] \<Rightarrow> Inl URIError
             | v # vs \<Rightarrow>
                 (let m = v mod 0x10000 in
                  if 0xDC00 \<le> m \<and> m \<le> 0xDFFF
                  then prepend (escape (0x10000 + (n - 0xD800) * 0x400 + (m - 0xDC00)))
                         (encodeURI vs)
                  else Inl URIError))
          else if 0xDC00 \<le> n \<and> n \<le> 0xDFFF then Inl URIError
          else prepend (escape n) (encodeURI us))"

text \<open>
  The data of the endpoint event, \<open>encodeURI(_endpoint)\<close> followed by \<open>?sessionId=\<close> and
  the session id, or the error \<open>encodeURI\<close> throws; and the text of a frame.
\<close>

definition endpoint_data :: "js_string \<Rightarrow> string \<Rightarrow> js_error + string" where
  "endpoint_data ep sid =
     (case encodeURI ep of Inl e \<Rightarrow> Inl e | Inr p \<Rightarrow> Inr (p @ ''?sessionId='' @ sid))"

definition sse_frame :: "string \<Rightarrow> string \<Rightarrow> string" where
  "sse_frame event data = ''event: '' @ event @ ''\<newline>data: '' @ data @ ''\<newline>\<newline>''"

section \<open>The Transport callbacks\<close>

text \<open>
  \<open>onclose\<close>, \<open>onerror\<close> and \<open>onmessage\<close> are fields the owner of a transport assigns.
  The model keeps, in order, every call the transport makes to them (\<open>this.onclose?.()\<close>
  and so on); a callback returns without throwing.
\<close>

datatype callback = OnClose | OnError js_error | OnMessage json

record transport_base =
  endpoint :: js_string
  sessionId :: string
  callbacks :: "callback list"

text \<open>The messages handed to \<open>onmessage\<close>, in order.\<close>

fun delivered :: "callback list \<Rightarrow> json list" where
  "delivered [] = []"
| "delivered (OnMessage m # cs) = m # delivered cs"
| "delivered (_ # cs) = delivered cs"

text \<open>
  \<open>handleMessage\<close>, the same text in both classes: validate, report a failure to
  \<open>onerror\<close> and rethrow it, hand a valid message to \<open>onmessage\<close>.
\<close>

definition handleMessage ::
  "externals \<Rightarrow> 'a transport_base_scheme \<Rightarrow> json \<Rightarrow> unit outcome \<times> 'a transport_base_scheme" where
  "handleMessage ext t message =
     (case schema_parse ext message of
        Inl error \<Rightarrow> (Threw error, t\<lparr>callbacks := callbacks t @ [OnError error]\<rparr>)
      | Inr parsedMessage \<Rightarrow>
          (Returned (), t\<lparr>callbacks := callbacks t @ [OnMessage parsedMessage]\<rparr>))"

text \<open>The operations on a transport, for sequences of them.\<close>

datatype op =
    Start
  | Close
  | Send json
  | Post post_request "json option"
  | Message json
  | ConnectionLost

section \<open>SSEServerTransport\<close>

text \<open>
  The \<open>ServerResponse\<close> of node:http the transport is built on, as the calls made on
  it: each \<open>writeHead\<close>, each chunk passed to \<open>write\<close>, whether \<open>end\<close> was called, and
  how many listeners \<open>on("close", ...)\<close> registered. \<open>writeHead\<close> throws
  \<open>ERR_HTTP_HEADERS_SENT\<close> once a head has been written.
\<close>

record server_response =
  heads :: "(nat \<times> (string \<times> string) list) list"
  chunks :: "string list"
  ended :: bool
  close_listeners :: nat

definition fresh_response :: server_response where
  "fresh_response = \<lparr>heads = [], chunks = [], ended = False, close_listeners = 0\<rparr>"

definition writeHead ::
  "server_response \<Rightarrow> nat \<Rightarrow> (string \<times> string) list \<Rightarrow> js_error + server_response" where
  "writeHead r status hs =
     (if heads r \<noteq> []
      then Inl (JsError ''Error'' ''Cannot write headers after they are sent to the client'')
      else Inr (r\<lparr>heads := heads r @ [(status, hs)]\<rparr>))"

definition sse_headers :: "(string \<times> string) list" where
  "sse_headers =
     [(''Content-Type'', ''text/event-stream''), (''Cache-Control'', ''no-cache''),
      (''Connection'', ''keep-alive'')]"

text \<open>\<open>_sseResponse\<close> is either undefined or \<open>this.res\<close>: the field \<open>sseResponse\<close> says which.\<close>

record sse_transport = transport_base +
  sseResponse :: bool
  res :: server_response

definition new_SSEServerTransport ::
  "js_string \<Rightarrow> server_response \<Rightarrow> string \<Rightarrow> sse_transport" where
  "new_SSEServerTransport ep r uuid =
     \<lparr>endpoint = ep, sessionId = uuid, callbacks = [], sseResponse = False, res = r\<rparr>"

text \<open>
  \<open>start\<close>: the guard, the head, the endpoint event (whose text \<open>encodeURI\<close> may refuse
  to build, after the head is written), then \<open>_sseResponse\<close> and the close listener.
\<close>

definition SSEServerTransport_start :: "sse_transport \<Rightarrow> unit outcome \<times> sse_transport" where
  "SSEServerTransport_start t =
     (if sseResponse t then
        (Threw (JsError ''Error''
           ''SSEServerTransport already started! If using Server class, note that connect() calls start() automatically.''),
         t)
      else
        (case writeHead (res t) 200 sse_headers of
           Inl e \<Rightarrow> (Threw e, t)
         | Inr r \<Rightarrow>
             (case endpoint_data (endpoint t) (sessionId t) of
                Inl e \<Rightarrow> (Threw e, t\<lparr>res := r\<rparr>)
              | Inr d \<Rightarrow>
                  (Returned (),
                   t\<lparr>res := r\<lparr>chunks := chunks r @ [sse_frame ''endpoint'' d],
                               close_listeners := Suc (close_listeners r)\<rparr>,
                     sseResponse := True\<rparr>))))"

text \<open>The listener \<open>start\<close> registers, and the response's \<open>close\<close> event, which runs every listener.\<close>

definition on_res_close :: "sse_transport \<Rightarrow> sse_transport" where
  "on_res_close t = t\<lparr>sseResponse := False, callbacks := callbacks t @ [OnClose]\<rparr>"

definition res_emit_close :: "sse_transport \<Rightarrow> sse_transport" where
  "res_emit_close t = (on_res_close ^^ close_listeners (res t)) t"

definition SSEServerTransport_close :: "sse_transport \<Rightarrow> sse_transport" where
  "SSEServerTransport_close t =
     t\<lparr>res := (if sseResponse t then (res t)\<lparr>ended := True\<rparr> else res t),
       sseResponse := False,
       callbacks := callbacks t @ [OnClose]\<rparr>"

definition SSEServerTransport_send ::
  "externals \<Rightarrow> sse_transport \<Rightarrow> json \<Rightarrow> unit outcome \<times> sse_transport" where
  "SSEServerTransport_send ext t message =
     (if \<not> sseResponse t then (Threw (JsError ''Error'' ''Not connected''), t)
      else
        (Returned (),
         t\<lparr>res := (res t)\<lparr>chunks := chunks (res t)
                       @ [sse_frame ''message'' (JSON_stringify ext message)]\<rparr>\<rparr>))"

text \<open>The first \<open>try\<close> block of \<open>handlePostMessage\<close>: content type, then the body.\<close>

definition SSEServerTransport_readBody ::
  "externals \<Rightarrow> post_request \<Rightarrow> json option \<Rightarrow> js_error + json" where
  "SSEServerTransport_readBody ext req parsedBody =
     (case contentType_parse ext
             (case content_type_header req of None \<Rightarrow> [] | Some h \<Rightarrow> h) of
        Inl e \<Rightarrow> Inl e
      | Inr ct \<Rightarrow>
          if ctype ct \<noteq> ''application/json''
          then Inl (JsError ''Error'' ''Unsupported content-type: [object Object]'')
          else
            (case nullish parsedBody of
               Some v \<Rightarrow> Inr v
             | None \<Rightarrow>
                 (case getRawBody ext (body_bytes req) MAXIMUM_MESSAGE_SIZE
                         (case charset ct of None \<Rightarrow> ''utf-8'' | Some c \<Rightarrow> c) of
                    Inl e \<Rightarrow> Inl e
                  | Inr text \<Rightarrow> Inr (JStr text))))"

text \<open>
  \<open>handlePostMessage\<close> gives what the call does to its caller, the answer written to
  the POST response, and the transport afterwards.
\<close>

definition SSEServerTransport_handlePostMessage ::
  "externals \<Rightarrow> sse_transport \<Rightarrow> post_request \<Rightarrow> json option
     \<Rightarrow> unit outcome \<times> reply \<times> sse_transport" where
  "SSEServerTransport_handlePostMessage ext t req parsedBody =
     (if \<not> sseResponse t then
        (Threw (JsError ''Error'' ''SSE connection not established''),
         (500, ''SSE connection not established''), t)
      else
        (case SSEServerTransport_readBody ext req parsedBody of
           Inl error \<Rightarrow>
             (Returned (), (400, String_error error),
              t\<lparr>callbacks := callbacks t @ [OnError error]\<rparr>)
         | Inr body \<Rightarrow>
             (case (case body of JStr s \<Rightarrow> JSON_parse ext s | _ \<Rightarrow> Inr body) of
                Inl _ \<Rightarrow>
                  (Returned (), (400, ''Invalid message: '' @ String_value ext body), t)
              | Inr message \<Rightarrow>
                  (case handleMessage ext t message of
                     (Threw _, t') \<Rightarrow>
                       (Returned (), (400, ''Invalid message: '' @ String_value ext body), t')
                   | (Returned _, t') \<Rightarrow> (Returned (), (202, ''Accepted''), t')))))"

fun SSEServerTransport_step :: "externals \<Rightarrow> op \<Rightarrow> sse_transport \<Rightarrow> sse_transport" where
  "SSEServerTransport_step ext Start t = snd (SSEServerTransport_start t)"
| "SSEServerTransport_step ext Close t = SSEServerTransport_close t"
| "SSEServerTransport_step ext (Send m) t = snd (SSEServerTransport_send ext t m)"
| "SSEServerTransport_step ext (Post req parsedBody) t =
     snd (snd (SSEServerTransport_handlePostMessage ext t req parsedBody))"
| "SSEServerTransport_step ext (Message m) t = snd (handleMessage ext t m)"
| "SSEServerTransport_step ext ConnectionLost t = res_emit_close t"

fun SSEServerTransport_run :: "externals \<Rightarrow> op list \<Rightarrow> sse_transport \<Rightarrow> sse_transport" where
  "SSEServerTransport_run ext [] t = t"
| "SSEServerTransport_run ext (x # xs) t =
     SSEServerTransport_run ext xs (SSEServerTransport_step ext x t)"

section \<open>HonoSSEServerTransport\<close>

text \<open>
  \<open>_writer\<close> is undefined or the writer of the transform stream the last \<open>start\<close>
  created; the field holds the chunks written through it. \<open>released\<close> holds the streams
  whose writer was closed and dropped, \<open>responses\<close> counts the assignments to
  \<open>context.res\<close>, \<open>abort_listeners\<close> the listeners on the request's abort signal.
\<close>

record hono_transport = transport_base +
  writer :: "string list option"
  isConnectionClosed :: bool
  released :: "string list list"
  responses :: nat
  abort_listeners :: nat

definition new_HonoSSEServerTransport :: "js_string \<Rightarrow> string \<Rightarrow> hono_transport" where
  "new_HonoSSEServerTransport ep uuid =
     \<lparr>endpoint = ep, sessionId = uuid, callbacks = [], writer = None,
      isConnectionClosed = False, released = [], responses = 0, abort_listeners = 0\<rparr>"

definition writeEvent ::
  "hono_transport \<Rightarrow> string \<Rightarrow> string \<Rightarrow> unit outcome \<times> hono_transport" where
  "writeEvent h event data =
     (case writer h of
        None \<Rightarrow> (Threw (JsError ''Error'' ''Not connected''), h)
      | Some w \<Rightarrow>
          if isConnectionClosed h then (Threw (JsError ''Error'' ''Not connected''), h)
          else (Returned (), h\<lparr>writer := Some (w @ [sse_frame event data])\<rparr>))"

definition handleConnectionClose :: "hono_transport \<Rightarrow> hono_transport" where
  "handleConnectionClose h =
     (if \<not> isConnectionClosed h then
        h\<lparr>isConnectionClosed := True,
          released := (case writer h of None \<Rightarrow> released h | Some w \<Rightarrow> released h @ [w]),
          writer := None,
          callbacks := callbacks h @ [OnClose]\<rparr>
      else h)"

text \<open>
  \<open>start\<close>: the guard, the new stream and response, the endpoint event (whose data
  \<open>encodeURI\<close> may refuse to build, after \<open>_writer\<close> is set), then the abort listener.
\<close>

definition HonoSSEServerTransport_start :: "hono_transport \<Rightarrow> unit outcome \<times> hono_transport" where
  "HonoSSEServerTransport_start h =
     (if writer h \<noteq> None then
        (Threw (JsError ''Error''
           ''HonoSSEServerTransport already started! If using Server class, note that connect() calls start() automatically.''),
         h)
      else
        (case endpoint_data (endpoint h) (sessionId h) of
           Inl e \<Rightarrow> (Threw e, h\<lparr>writer := Some [], responses := Suc (responses h)\<rparr>)
         | Inr d \<Rightarrow>
             (case writeEvent (h\<lparr>writer := Some [], responses := Suc (responses h)\<rparr>)
                     ''endpoint'' d of
                (Threw e, h') \<Rightarrow> (Threw e, h')
              | (Returned _, h') \<Rightarrow>
                  (Returned (), h'\<lparr>abort_listeners := Suc (abort_listeners h')\<rparr>))))"

text \<open>The abort signal of the request runs every listener \<open>start\<close> registered.\<close>

definition signal_abort :: "hono_transport \<Rightarrow> hono_transport" where
  "signal_abort h = (handleConnectionClose ^^ abort_listeners h) h"

definition HonoSSEServerTransport_close :: "hono_transport \<Rightarrow> hono_transport" where
  "HonoSSEServerTransport_close h = handleConnectionClose h"

definition HonoSSEServerTransport_send ::
  "externals \<Rightarrow> hono_transport \<Rightarrow> json \<Rightarrow> unit outcome \<times> hono_transport" where
  "HonoSSEServerTransport_send ext h message =
     (if writer h = None \<or> isConnectionClosed h
      then (Threw (JsError ''Error'' ''Not connected''), h)
      else writeEvent h ''message'' (JSON_stringify ext message))"

text \<open>\<open>s.includes(t)\<close>.\<close>

definition string_includes :: "string \<Rightarrow> string \<Rightarrow> bool" where
  "string_includes s t = sublist t s"

text \<open>
  The first \<open>try\<close> block of \<open>handlePostMessage\<close>. \<open>context.req.json()\<close> reads the whole
  body and parses it.
\<close>

definition HonoSSEServerTransport_readBody ::
  "externals \<Rightarrow> post_request \<Rightarrow> json option \<Rightarrow> js_error + json" where
  "HonoSSEServerTransport_readBody ext req parsedBody =
     (let contentTypeHeader = (case content_type_header req of None \<Rightarrow> [] | Some h \<Rightarrow> h) in
      if \<not> string_includes contentTypeHeader ''application/json''
      then Inl (JsError ''Error'' (''Unsupported content-type: '' @ contentTypeHeader))
      else
        (case nullish parsedBody of
           Some v \<Rightarrow> Inr v
         | None \<Rightarrow> JSON_parse ext (body_bytes req)))"

definition HonoSSEServerTransport_handlePostMessage ::
  "externals \<Rightarrow> hono_transport \<Rightarrow> post_request \<Rightarrow> json option
     \<Rightarrow> reply outcome \<times> hono_transport" where
  "HonoSSEServerTransport_handlePostMessage ext h req parsedBody =
     (if writer h = None \<or> isConnectionClosed h then
        (Returned (500, ''SSE connection not established''), h)
      else
        (case HonoSSEServerTransport_readBody ext req parsedBody of
           Inl error \<Rightarrow>
             (Returned (400, String_error error),
              h\<lparr>callbacks := callbacks h @ [OnError error]\<rparr>)
         | Inr body \<Rightarrow>
             (case handleMessage ext h body of
                (Threw _, h') \<Rightarrow>
                  (Returned (400, ''Invalid message: '' @ JSON_stringify ext body), h')
              | (Returned _, h') \<Rightarrow> (Returned (202, ''Accepted''), h'))))"

fun HonoSSEServerTransport_step :: "externals \<Rightarrow> op \<Rightarrow> hono_transport \<Rightarrow> hono_transport" where
  "HonoSSEServerTransport_step ext Start h = snd (HonoSSEServerTransport_start h)"
| "HonoSSEServerTransport_step ext Close h = HonoSSEServerTransport_close h"
| "HonoSSEServerTransport_step ext (Send m) h = snd (HonoSSEServerTransport_send ext h m)"
| "HonoSSEServerTransport_step ext (Post req parsedBody) h =
     snd (HonoSSEServerTransport_handlePostMessage ext h req parsedBody)"
| "HonoSSEServerTransport_step ext (Message m) h = snd (handleMessage ext h m)"
| "HonoSSEServerTransport_step ext ConnectionLost h = signal_abort h"

fun HonoSSEServerTransport_run :: "externals \<Rightarrow> op list \<Rightarrow> hono_transport \<Rightarrow> hono_transport" where
  "HonoSSEServerTransport_run ext [] h = h"
| "HonoSSEServerTransport_run ext (x # xs) h =
     HonoSSEServerTransport_run ext xs (HonoSSEServerTransport_step ext x h)"

section \<open>What the transports put on their streams\<close>

text \<open>The frames \<open>send\<close> writes for a list of messages.\<close>

definition message_frames :: "externals \<Rightarrow> json list \<Rightarrow> string list" where
  "message_frames ext ms = map (\<lambda>m. sse_frame ''message'' (JSON_stringify ext m)) ms"

text \<open>Every stream a Hono transport has created: the released ones, then the current one.\<close>

definition hono_streams :: "hono_transport \<Rightarrow> string list list" where
  "hono_streams h = released h @ (case writer h of None \<Rightarrow> [] | Some w \<Rightarrow> [w])"

text \<open>
  Invariants of the runs, for a transport whose endpoint event has the data \<open>d\<close>. A
  stream has \<open>started\<close> when it holds the endpoint frame followed by message frames only.
  The response of an \<open>SSEServerTransport\<close> holds no chunk while no \<open>start\<close> has
  succeeded, and has started afterwards. Every stream of a \<open>HonoSSEServerTransport\<close> is
  empty or has started, and an empty current stream belongs to a closed transport.
\<close>

definition started :: "externals \<Rightarrow> string \<Rightarrow> string list \<Rightarrow> bool" where
  "started ext d s = (\<exists>ms. s = sse_frame ''endpoint'' d # message_frames ext ms)"

fun chunks_ok :: "externals \<Rightarrow> string \<Rightarrow> bool \<Rightarrow> bool \<Rightarrow> string list \<Rightarrow> bool" where
  "chunks_ok ext d connected head_sent [] = (\<not> connected)"
| "chunks_ok ext d connected head_sent (c # cs) = (head_sent \<and> started ext d (c # cs))"

definition sse_good :: "externals \<Rightarrow> string \<Rightarrow> sse_transport \<Rightarrow> bool" where
  "sse_good ext d t =
     (chunks_ok ext d (sseResponse t) (heads (res t) \<noteq> []) (chunks (res t))
      \<and> endpoint_data (endpoint t) (sessionId t) = Inr d)"

fun writer_ok :: "externals \<Rightarrow> string \<Rightarrow> bool \<Rightarrow> string list option \<Rightarrow> bool" where
  "writer_ok ext d closed None = True"
| "writer_ok ext d closed (Some w) = ((closed \<and> w = []) \<or> started ext d w)"

definition hono_good :: "externals \<Rightarrow> string \<Rightarrow> hono_transport \<Rightarrow> bool" where
  "hono_good ext d h =
     (list_all (\<lambda>s. s = [] \<or> started ext d s) (released h)
      \<and> writer_ok ext d (isConnectionClosed h) (writer h)
      \<and> endpoint_data (endpoint h) (sessionId h) = Inr d)"

section \<open>Sample inputs\<close>

text \<open>
  A stand-in for the external functions, for running the transports on sample requests.
  Its JSON parser knows one text, a \<open>ping\<close> notification, followed by any number of
  spaces; its schema accepts that message only; its content-type parser takes the text
  before the first semicolon as the media type; it decodes \<open>utf-8\<close> only.
\<close>

definition ping_text :: string where
  \<open>ping_text = ''{"jsonrpc":"2.0","method":"ping"}''\<close>

definition ping :: json where
  "ping = JObj [(''jsonrpc'', JStr ''2.0''), (''method'', JStr ''ping'')]"

definition rstrip :: "string \<Rightarrow> string" where
  "rstrip s = rev (dropWhile (\<lambda>c. c = CHR '' '') (rev s))"

definition sample_ext :: externals where
  "sample_ext =
     \<lparr>JSON_parse = (\<lambda>s. if rstrip s = ping_text then Inr ping
                         else Inl (JsError ''SyntaxError'' ''Unexpected token'')),
      JSON_stringify = (\<lambda>v. if v = ping then ping_text else ''null''),
      String_value = (\<lambda>v. case v of JStr s \<Rightarrow> s | _ \<Rightarrow> ''[object Object]''),
      schema_parse = (\<lambda>v. if v = ping then Inr v
                           else Inl (JsError ''ZodError'' ''Invalid input'')),
      contentType_parse = (\<lambda>h. if h = [] then Inl (JsError ''TypeError'' ''invalid media type'')
                                else Inr \<lparr>ctype = takeWhile (\<lambda>c. c \<noteq> CHR '';'') h,
                                          charset = None\<rparr>),
      getDecoder = (\<lambda>enc. if enc = ''utf-8'' then Some (\<lambda>b. b) else None)\<rparr>"

text \<open>A POST request with the given content type and body.\<close>

definition post :: "string \<Rightarrow> string \<Rightarrow> post_request" where
  "post ct body = \<lparr>content_type_header = Some ct, body_bytes = body\<rparr>"

text \<open>
  A transport of each class after its first \<open>start\<close>, a body above the size limit, and
  a path that is one high surrogate.
\<close>

definition started_sse :: sse_transport where
  "started_sse = SSEServerTransport_run sample_ext [Start]
     (new_SSEServerTransport (js ''/message'') fresh_response ''S1'')"

definition started_hono :: hono_transport where
  "started_hono = HonoSSEServerTransport_run sample_ext [Start]
     (new_HonoSSEServerTransport (js ''/message'') ''S1'')"

definition oversized_body :: string where
  "oversized_body = ping_text @ replicate MAXIMUM_MESSAGE_SIZE CHR '' ''"


section \<open>Properties of the authentication middleware\<close>

lemma safeParse_credentials: "safeParse (credentials cid csecret) = Inr (cid, csecret)"
  by (cases csecret) (simp_all add: credentials_def)

lemma authenticate_parsed:
  assumes "safeParse body = Inr (cid, csecret)"
  shows "authenticate getClient now_ms body =
     (case getClient cid of
        Inl t \<Rightarrow> Inl t
      | Inr None \<Rightarrow> Inl (ThrownOAuth (InvalidClientError ''Invalid client_id''))
      | Inr (Some client) \<Rightarrow>
          if truthy_string (client_secret client) then
            if \<not> truthy_string csecret then
              Inl (ThrownOAuth (InvalidClientError ''Client secret is required''))
            else if client_secret client \<noteq> csecret then
              Inl (ThrownOAuth (InvalidClientError ''Invalid client_secret''))
            else if truthy_number (client_secret_expires_at client)
                  \<and> the (client_secret_expires_at client) < now_ms div 1000 then
              Inl (ThrownOAuth (InvalidClientError ''Client secret has expired''))
            else Inr client
          else Inr client)"
  using assms by (simp add: authenticate_def)

text \<open>
  C1, as stated, fails. The client \<open>c1\<close> has the stored secret \<open>s1\<close>, expired at epoch
  second 1; at \<open>Date.now() = 5000\<close> a caller who supplies the secret \<open>wrong\<close> is
  rejected with the description \<open>Invalid client_secret\<close>, not \<open>Client secret has
  expired\<close>: the comparison of the secrets comes before the expiry check.
\<close>

theorem expired_secret_counterexample:
  "authenticateClient
     (single_store \<lparr>client_id = ''c1'', client_secret = Some ''s1'',
                    client_secret_expires_at = Some 1\<rparr>)
     5000 (credentials ''c1'' (Some ''wrong''))
   = Respond 400 (InvalidClientError ''Invalid client_secret'')
   \<and> authenticateClient
     (single_store \<lparr>client_id = ''c1'', client_secret = Some ''s1'',
                    client_secret_expires_at = Some 1\<rparr>)
     5000 (credentials ''c1'' (Some ''wrong''))
   \<noteq> Respond 400 (InvalidClientError ''Client secret has expired'')"
  by (simp add: authenticateClient_def authenticate_parsed [OF safeParse_credentials]
        single_store_def)

text \<open>
  C1, amended. For a registered client with a non-empty stored secret and a non-zero
  \<open>client_secret_expires_at\<close> earlier than the current epoch second, every well-formed
  request is rejected with status 400 and an \<open>InvalidClientError\<close>. The description is
  \<open>Client secret has expired\<close> exactly when the caller supplies the stored secret; it is
  \<open>Client secret is required\<close> when the caller supplies none or the empty string, and
  \<open>Invalid client_secret\<close> when the caller supplies a different one.
\<close>

theorem expired_secret_rejected:
  assumes "safeParse body = Inr (cid, csecret)"
    and "getClient cid = Inr (Some client)"
    and "client_secret client = Some s" and "s \<noteq> []"
    and "client_secret_expires_at client = Some e" and "e \<noteq> 0"
    and "e < now_ms div 1000"
  shows "authenticateClient getClient now_ms body =
           Respond 400 (InvalidClientError
             (if csecret = None \<or> csecret = Some [] then ''Client secret is required''
              else if csecret = Some s then ''Client secret has expired''
              else ''Invalid client_secret''))"
proof (cases csecret)
  case None
  with assms show ?thesis
    by (simp add: authenticateClient_def authenticate_parsed [OF assms(1)])
next
  case (Some given)
  with assms show ?thesis
    by (simp add: authenticateClient_def authenticate_parsed [OF assms(1)])
qed

theorem expired_secret_rejected_witness:
  "authenticateClient
     (single_store \<lparr>client_id = ''c1'', client_secret = Some ''s1'',
                    client_secret_expires_at = Some 1\<rparr>)
     5000 (credentials ''c1'' (Some ''s1''))
   = Respond 400 (InvalidClientError ''Client secret has expired'')"
  using expired_secret_rejected
    [where body = "credentials ''c1'' (Some ''s1'')" and cid = "''c1''"
       and csecret = "Some ''s1''"
       and getClient = "single_store \<lparr>client_id = ''c1'', client_secret = Some ''s1'',
                        client_secret_expires_at = Some 1\<rparr>"
       and client = "\<lparr>client_id = ''c1'', client_secret = Some ''s1'',
                       client_secret_expires_at = Some 1\<rparr>"
       and s = "''s1''" and e = 1 and now_ms = 5000]
  by (simp add: single_store_def safeParse_credentials)

text \<open>
  C8, as stated, fails in one case. The client \<open>c1\<close> has the stored secret \<open>s1\<close> and
  no expiry; a caller who supplies the empty string as \<open>client_secret\<close>, a string that
  differs from the stored one, is rejected with \<open>Client secret is required\<close>, not with
  \<open>Invalid client_secret\<close>: the source tests \<open>!client_secret\<close>, which holds of the
  empty string.
\<close>

theorem empty_caller_secret_counterexample:
  "authenticateClient
     (single_store \<lparr>client_id = ''c1'', client_secret = Some ''s1'',
                    client_secret_expires_at = None\<rparr>)
     5000 (credentials ''c1'' (Some []))
   = Respond 400 (InvalidClientError ''Client secret is required'')
   \<and> authenticateClient
     (single_store \<lparr>client_id = ''c1'', client_secret = Some ''s1'',
                    client_secret_expires_at = None\<rparr>)
     5000 (credentials ''c1'' (Some []))
   \<noteq> Respond 400 (InvalidClientError ''Invalid client_secret'')"
  by (simp add: authenticateClient_def authenticate_parsed [OF safeParse_credentials]
        single_store_def)

text \<open>
  C8, amended. For every request body that passes the schema with client id \<open>cid\<close> and
  optional secret \<open>csecret\<close>: if the store knows no such client the request is rejected
  with an \<open>InvalidClientError\<close>, \<open>Invalid client_id\<close>; if the client has no stored
  secret (none, or the empty string) the request proceeds with the client attached,
  whatever the caller sent; if the client has a non-empty stored secret that has not
  expired (no expiry, expiry 0, or expiry not before the current epoch second) the
  request proceeds exactly when the caller supplies the same secret, is rejected with
  \<open>Client secret is required\<close> when the caller supplies none or the empty string, and
  with \<open>Invalid client_secret\<close> when the caller supplies another non-empty string.
\<close>

theorem authenticateClient_decision:
  "(safeParse body = Inr (cid, csecret) \<and> getClient cid = Inr None \<longrightarrow>
      authenticateClient getClient now_ms body
        = Respond 400 (InvalidClientError ''Invalid client_id''))
   \<and> (safeParse body = Inr (cid, csecret) \<and> getClient cid = Inr (Some client)
        \<and> (client_secret client = None \<or> client_secret client = Some []) \<longrightarrow>
      authenticateClient getClient now_ms body = Next client)
   \<and> (safeParse body = Inr (cid, csecret) \<and> getClient cid = Inr (Some client)
        \<and> client_secret client = Some s \<and> s \<noteq> []
        \<and> (client_secret_expires_at client = None
            \<or> client_secret_expires_at client = Some 0
            \<or> (\<exists>e. client_secret_expires_at client = Some e \<and> now_ms div 1000 \<le> e)) \<longrightarrow>
      authenticateClient getClient now_ms body
        = (if csecret = None \<or> csecret = Some [] then
             Respond 400 (InvalidClientError ''Client secret is required'')
           else if csecret = Some s then Next client
           else Respond 400 (InvalidClientError ''Invalid client_secret'')))"
proof (intro conjI impI)
  assume "safeParse body = Inr (cid, csecret) \<and> getClient cid = Inr None"
  then show "authenticateClient getClient now_ms body
        = Respond 400 (InvalidClientError ''Invalid client_id'')"
    by (simp add: authenticateClient_def authenticate_parsed)
next
  assume "safeParse body = Inr (cid, csecret) \<and> getClient cid = Inr (Some client)
        \<and> (client_secret client = None \<or> client_secret client = Some [])"
  then show "authenticateClient getClient now_ms body = Next client"
    by (auto simp add: authenticateClient_def authenticate_parsed)
next
  assume a: "safeParse body = Inr (cid, csecret) \<and> getClient cid = Inr (Some client)
        \<and> client_secret client = Some s \<and> s \<noteq> []
        \<and> (client_secret_expires_at client = None
            \<or> client_secret_expires_at client = Some 0
            \<or> (\<exists>e. client_secret_expires_at client = Some e \<and> now_ms div 1000 \<le> e))"
  then have parsed: "safeParse body = Inr (cid, csecret)"
    by simp
  from a have fresh: "\<not> (truthy_number (client_secret_expires_at client)
                  \<and> the (client_secret_expires_at client) < now_ms div 1000)"
    by auto
  show "authenticateClient getClient now_ms body
        = (if csecret = None \<or> csecret = Some [] then
             Respond 400 (InvalidClientError ''Client secret is required'')
           else if csecret = Some s then Next client
           else Respond 400 (InvalidClientError ''Invalid client_secret''))"
  proof (cases csecret)
    case None
    with a show ?thesis
      by (simp add: authenticateClient_def authenticate_parsed [OF parsed])
  next
    case (Some given)
    with a fresh show ?thesis
      by (auto simp add: authenticateClient_def authenticate_parsed [OF parsed])
  qed
qed

theorem authenticateClient_decision_witness:
  "authenticateClient (\<lambda>_. Inr None) 5000 (credentials ''nobody'' None)
     = Respond 400 (InvalidClientError ''Invalid client_id'')
   \<and> authenticateClient
       (single_store \<lparr>client_id = ''pub'', client_secret = None,
                      client_secret_expires_at = None\<rparr>)
       5000 (credentials ''pub'' None)
     = Next \<lparr>client_id = ''pub'', client_secret = None, client_secret_expires_at = None\<rparr>
   \<and> authenticateClient
       (single_store \<lparr>client_id = ''c1'', client_secret = Some ''s1'',
                      client_secret_expires_at = None\<rparr>)
       5000 (credentials ''c1'' (Some ''s1''))
     = Next \<lparr>client_id = ''c1'', client_secret = Some ''s1'', client_secret_expires_at = None\<rparr>"
  using authenticateClient_decision
    [where body = "credentials ''nobody'' None"
       and getClient = "\<lambda>_. Inr None" and cid = "''nobody''" and now_ms = 5000
       and csecret = None]
    authenticateClient_decision
    [where body = "credentials ''pub'' None"
       and getClient = "single_store \<lparr>client_id = ''pub'', client_secret = None,
                        client_secret_expires_at = None\<rparr>"
       and cid = "''pub''"
       and client = "\<lparr>client_id = ''pub'', client_secret = None,
                       client_secret_expires_at = None\<rparr>"
       and now_ms = 5000 and csecret = None]
    authenticateClient_decision
    [where body = "credentials ''c1'' (Some ''s1'')"
       and getClient = "single_store \<lparr>client_id = ''c1'', client_secret = Some ''s1'',
                        client_secret_expires_at = None\<rparr>"
       and cid = "''c1''"
       and client = "\<lparr>client_id = ''c1'', client_secret = Some ''s1'',
                       client_secret_expires_at = None\<rparr>"
       and s = "''s1''" and now_ms = 5000 and csecret = "Some ''s1''"]
  by (simp add: single_store_def safeParse_credentials)

section \<open>Steps of the transports\<close>

subsection \<open>What one operation changes\<close>

lemma delivered_append: "delivered (xs @ ys) = delivered xs @ delivered ys"
  by (induction xs rule: delivered.induct) simp_all

lemma handleMessage_state:
  "snd (handleMessage ext t v)
     = t\<lparr>callbacks := callbacks t
          @ [case schema_parse ext v of Inl e \<Rightarrow> OnError e | Inr m \<Rightarrow> OnMessage m]\<rparr>"
  by (simp add: handleMessage_def split: sum.splits)

lemma on_res_close_funpow:
  "(on_res_close ^^ n) t =
     t\<lparr>sseResponse := (if n = 0 then sseResponse t else False),
       callbacks := callbacks t @ replicate n OnClose\<rparr>"
proof (induction n)
  case 0
  show ?case by simp
next
  case (Suc n)
  then show ?case
    by (simp add: on_res_close_def replicate_append_same)
qed

lemma sse_start_blocked:
  assumes "sseResponse t \<or> heads (res t) \<noteq> []"
  shows "\<exists>e. SSEServerTransport_start t = (Threw e, t)"
  using assms by (auto simp add: SSEServerTransport_start_def writeHead_def)



lemma sse_first_start:
  assumes "endpoint_data ep uuid = Inr d"
  shows "SSEServerTransport_start (new_SSEServerTransport ep fresh_response uuid)
     = (Returned (),
        \<lparr>endpoint = ep, sessionId = uuid, callbacks = [], sseResponse = True,
         res = \<lparr>heads = [(200, sse_headers)], chunks = [sse_frame ''endpoint'' d],
                ended = False, close_listeners = 1\<rparr>\<rparr>)"
  using assms
  by (simp add: SSEServerTransport_start_def new_SSEServerTransport_def
        fresh_response_def writeHead_def)

lemma sse_post_cases:
  "(\<not> sseResponse t
      \<and> SSEServerTransport_handlePostMessage ext t req pb
          = (Threw (JsError ''Error'' ''SSE connection not established''),
             (500, ''SSE connection not established''), t))
   \<or> (\<exists>e. SSEServerTransport_readBody ext req pb = Inl e
      \<and> SSEServerTransport_handlePostMessage ext t req pb
          = (Returned (), (400, String_error e), t\<lparr>callbacks := callbacks t @ [OnError e]\<rparr>))
   \<or> (\<exists>body e. SSEServerTransport_readBody ext req pb = Inr body
      \<and> (case body of JStr s \<Rightarrow> JSON_parse ext s | _ \<Rightarrow> Inr body) = Inl e
      \<and> SSEServerTransport_handlePostMessage ext t req pb
          = (Returned (), (400, ''Invalid message: '' @ String_value ext body), t))
   \<or> (\<exists>body v e. SSEServerTransport_readBody ext req pb = Inr body
      \<and> (case body of JStr s \<Rightarrow> JSON_parse ext s | _ \<Rightarrow> Inr body) = Inr v
      \<and> schema_parse ext v = Inl e
      \<and> SSEServerTransport_handlePostMessage ext t req pb
          = (Returned (), (400, ''Invalid message: '' @ String_value ext body),
             t\<lparr>callbacks := callbacks t @ [OnError e]\<rparr>))
   \<or> (\<exists>body v m. SSEServerTransport_readBody ext req pb = Inr body
      \<and> (case body of JStr s \<Rightarrow> JSON_parse ext s | _ \<Rightarrow> Inr body) = Inr v
      \<and> schema_parse ext v = Inr m
      \<and> SSEServerTransport_handlePostMessage ext t req pb
          = (Returned (), (202, ''Accepted''),
             t\<lparr>callbacks := callbacks t @ [OnMessage m]\<rparr>))"
proof (cases "sseResponse t")
  case False
  then show ?thesis by (simp add: SSEServerTransport_handlePostMessage_def)
next
  case True
  show ?thesis
  proof (cases "SSEServerTransport_readBody ext req pb")
    case (Inl e)
    with True show ?thesis by (simp add: SSEServerTransport_handlePostMessage_def)
  next
    case (Inr body)
    show ?thesis
    proof (cases "case body of JStr s \<Rightarrow> JSON_parse ext s | _ \<Rightarrow> Inr body")
      case (Inl e)
      with True Inr show ?thesis by (simp add: SSEServerTransport_handlePostMessage_def)
    next
      case parsed: (Inr v)
      show ?thesis
      proof (cases "schema_parse ext v")
        case (Inl e)
        with True Inr parsed show ?thesis
          by (simp add: SSEServerTransport_handlePostMessage_def handleMessage_def)
      next
        case valid: (Inr m)
        with True Inr parsed show ?thesis
          by (simp add: SSEServerTransport_handlePostMessage_def handleMessage_def)
      qed
    qed
  qed
qed

lemma sse_post_state:
  "\<exists>cs. snd (snd (SSEServerTransport_handlePostMessage ext t req pb)) = t\<lparr>callbacks := cs\<rparr>"
proof -
  have same: "t = t\<lparr>callbacks := callbacks t\<rparr>" by simp
  show ?thesis
    unfolding SSEServerTransport_handlePostMessage_def
    by (auto simp add: handleMessage_def split: sum.splits json.splits intro: same)
qed

lemma handleConnectionClose_closed [simp]:
  "isConnectionClosed (handleConnectionClose h)"
  by (simp add: handleConnectionClose_def)

lemma handleConnectionClose_idem:
  "isConnectionClosed h \<Longrightarrow> handleConnectionClose h = h"
  by (simp add: handleConnectionClose_def)

lemma handleConnectionClose_funpow:
  "(handleConnectionClose ^^ n) h = (if n = 0 then h else handleConnectionClose h)"
proof (induction n)
  case 0
  show ?case by simp
next
  case (Suc n)
  then show ?case
    by (simp add: handleConnectionClose_idem)
qed

lemma hono_start_blocked:
  assumes "writer h \<noteq> None"
  shows "\<exists>e. HonoSSEServerTransport_start h = (Threw e, h)"
  using assms by (simp add: HonoSSEServerTransport_start_def)

lemma hono_start_closed:
  assumes "writer h = None" and "isConnectionClosed h"
  shows "\<exists>e. HonoSSEServerTransport_start h
           = (Threw e, h\<lparr>writer := Some [], responses := Suc (responses h)\<rparr>)"
  using assms
  by (cases "endpoint_data (endpoint h) (sessionId h)")
     (simp_all add: HonoSSEServerTransport_start_def writeEvent_def)


lemma hono_start_uri_error:
  assumes "writer h = None" and "endpoint_data (endpoint h) (sessionId h) = Inl e"
  shows "HonoSSEServerTransport_start h
     = (Threw e, h\<lparr>writer := Some [], responses := Suc (responses h)\<rparr>)"
  using assms by (simp add: HonoSSEServerTransport_start_def)

lemma hono_first_start:
  assumes "endpoint_data ep uuid = Inr d"
  shows "HonoSSEServerTransport_start (new_HonoSSEServerTransport ep uuid)
     = (Returned (),
        \<lparr>endpoint = ep, sessionId = uuid, callbacks = [],
         writer = Some [sse_frame ''endpoint'' d],
         isConnectionClosed = False, released = [], responses = 1, abort_listeners = 1\<rparr>)"
  using assms
  by (simp add: HonoSSEServerTransport_start_def new_HonoSSEServerTransport_def
        writeEvent_def)

lemma hono_post_cases:
  "((writer h = None \<or> isConnectionClosed h)
      \<and> HonoSSEServerTransport_handlePostMessage ext h req pb
          = (Returned (500, ''SSE connection not established''), h))
   \<or> (\<exists>e. HonoSSEServerTransport_readBody ext req pb = Inl e
      \<and> HonoSSEServerTransport_handlePostMessage ext h req pb
          = (Returned (400, String_error e), h\<lparr>callbacks := callbacks h @ [OnError e]\<rparr>))
   \<or> (\<exists>v e. HonoSSEServerTransport_readBody ext req pb = Inr v
      \<and> schema_parse ext v = Inl e
      \<and> HonoSSEServerTransport_handlePostMessage ext h req pb
          = (Returned (400, ''Invalid message: '' @ JSON_stringify ext v),
             h\<lparr>callbacks := callbacks h @ [OnError e]\<rparr>))
   \<or> (\<exists>v m. HonoSSEServerTransport_readBody ext req pb = Inr v
      \<and> schema_parse ext v = Inr m
      \<and> HonoSSEServerTransport_handlePostMessage ext h req pb
          = (Returned (202, ''Accepted''), h\<lparr>callbacks := callbacks h @ [OnMessage m]\<rparr>))"
proof (cases "writer h = None \<or> isConnectionClosed h")
  case True
  then show ?thesis by (simp add: HonoSSEServerTransport_handlePostMessage_def)
next
  case False
  show ?thesis
  proof (cases "HonoSSEServerTransport_readBody ext req pb")
    case (Inl e)
    with False show ?thesis by (simp add: HonoSSEServerTransport_handlePostMessage_def)
  next
    case (Inr v)
    show ?thesis
    proof (cases "schema_parse ext v")
      case (Inl e)
      with False Inr show ?thesis
        by (simp add: HonoSSEServerTransport_handlePostMessage_def handleMessage_def)
    next
      case valid: (Inr m)
      with False Inr show ?thesis
        by (simp add: HonoSSEServerTransport_handlePostMessage_def handleMessage_def)
    qed
  qed
qed

lemma hono_post_state:
  "\<exists>cs. snd (HonoSSEServerTransport_handlePostMessage ext h req pb) = h\<lparr>callbacks := cs\<rparr>"
proof -
  have same: "h = h\<lparr>callbacks := callbacks h\<rparr>" by simp
  show ?thesis
    unfolding HonoSSEServerTransport_handlePostMessage_def
    by (auto simp add: handleMessage_def split: sum.splits intro: same)
qed

subsection \<open>encodeURI\<close>

lemma find_self:
  "c \<in> set xs \<Longrightarrow> find (\<lambda>c'. (of_char c' :: nat) = of_char c) xs = Some c"
  by (induction xs) auto

lemma encodeURI_unescaped:
  "(\<forall>c \<in> set s. uri_unescaped c) \<Longrightarrow> encodeURI (js s) = Inr s"
proof (induction s)
  case Nil
  show ?case by (simp add: js_def)
next
  case (Cons c cs)
  then have ih: "encodeURI (js cs) = Inr cs" and un: "c \<in> set unescaped_chars"
    by (simp_all add: uri_unescaped_def)
  have "(of_char c :: nat) < 256" by simp
  then have "(of_char c :: nat) < 0x10000" by linarith
  then have "(of_char c :: nat) mod 0x10000 = of_char c" by (rule mod_less)
  with ih find_self [OF un] show ?case
    by (simp add: js_def)
qed

lemma endpoint_data_encoded:
  "encodeURI ep = Inr p \<Longrightarrow> endpoint_data ep uuid = Inr (p @ ''?sessionId='' @ uuid)"
  by (simp add: endpoint_data_def)


subsection \<open>The sample inputs\<close>

lemma sample_path: "encodeURI (js ''/message'') = Inr ''/message''"
  by (rule encodeURI_unescaped) (simp add: uri_unescaped_def unescaped_chars_def)

lemma sample_endpoint: "endpoint_data (js ''/message'') ''S1'' = Inr ''/message?sessionId=S1''"
  by (simp add: endpoint_data_def sample_path)


lemma post_fields [simp]:
  "content_type_header (post ct body) = Some ct" "body_bytes (post ct body) = body"
  by (simp_all add: post_def)

lemma started_sse_connected: "sseResponse started_sse"
  by (simp add: started_sse_def sse_first_start [OF sample_endpoint])

lemma started_hono_connected:
  "writer started_hono \<noteq> None" "\<not> isConnectionClosed started_hono"
  by (simp_all add: started_hono_def hono_first_start [OF sample_endpoint])

lemma dropWhile_spaces:
  "dropWhile (\<lambda>c. c = CHR '' '') (replicate n CHR '' '' @ ys) = dropWhile (\<lambda>c. c = CHR '' '') ys"
  by (induction n) simp_all

lemma rstrip_padded:
  assumes "s \<noteq> []" and "last s \<noteq> CHR '' ''"
  shows "rstrip (s @ replicate n CHR '' '') = s"
proof -
  have "rev s \<noteq> []" and "hd (rev s) \<noteq> CHR '' ''"
    using assms by (simp_all add: hd_rev)
  then have "dropWhile (\<lambda>c. c = CHR '' '') (rev s) = rev s"
    by (cases "rev s") simp_all
  then show ?thesis
    by (simp add: rstrip_def dropWhile_spaces)
qed

lemma sample_parse_padded:
  "JSON_parse sample_ext (ping_text @ replicate n CHR '' '') = Inr ping"
proof -
  have "rstrip (ping_text @ replicate n CHR '' '') = ping_text"
    by (rule rstrip_padded) (simp_all add: ping_text_def)
  then show ?thesis by (simp add: sample_ext_def)
qed

lemma sample_parse_ping: "JSON_parse sample_ext ping_text = Inr ping"
  using sample_parse_padded [of 0] by simp

lemma sample_parse_brace:
  "JSON_parse sample_ext ''{'' = Inl (JsError ''SyntaxError'' ''Unexpected token'')"
  by (simp add: sample_ext_def rstrip_def ping_text_def)

lemma sample_schema_ping: "schema_parse sample_ext ping = Inr ping"
  by (simp add: sample_ext_def)

lemma sample_readBody:
  "SSEServerTransport_readBody sample_ext (post ''application/json'' body) None
     = (if MAXIMUM_MESSAGE_SIZE < length body
        then Inl (JsError ''PayloadTooLargeError'' ''request entity too large'')
        else Inr (JStr body))"
  by (simp add: SSEServerTransport_readBody_def post_def sample_ext_def getRawBody_def)

lemma oversized_body_length: "MAXIMUM_MESSAGE_SIZE < length oversized_body"
  by (simp add: oversized_body_def ping_text_def)

lemma oversized_body_parses: "JSON_parse sample_ext oversized_body = Inr ping"
  by (simp add: oversized_body_def sample_parse_padded)

lemma includes_parameter:
  "string_includes ''text/plain; a=application/json'' ''application/json''"
  by (simp add: string_includes_def sublist_Cons_right)

lemma includes_exact: "string_includes ''application/json'' ''application/json''"
  by (simp add: string_includes_def)

lemma sample_readBody_parsed:
  "SSEServerTransport_readBody sample_ext (post ''application/json'' body) (Some (JObj []))
     = Inr (JObj [])"
  "HonoSSEServerTransport_readBody sample_ext (post ''application/json'' body) (Some (JObj []))
     = Inr (JObj [])"
  by (simp_all add: SSEServerTransport_readBody_def HonoSSEServerTransport_readBody_def
        sample_ext_def includes_exact)

lemma sample_schema_empty:
  "schema_parse sample_ext (JObj []) = Inl (JsError ''ZodError'' ''Invalid input'')"
  by (simp add: sample_ext_def ping_def)

section \<open>The close callback\<close>

text \<open>
  The Hono transport guards \<open>handleConnectionClose\<close> with \<open>_isConnectionClosed\<close>: on every
  run from a new transport the number of \<open>onclose\<close> calls is 1 if the flag is set and 0
  otherwise, so it never exceeds one.
\<close>

lemma hono_start_callbacks:
  "callbacks (snd (HonoSSEServerTransport_start h)) = callbacks h"
  "isConnectionClosed (snd (HonoSSEServerTransport_start h)) = isConnectionClosed h"
  by (simp_all add: HonoSSEServerTransport_start_def writeEvent_def split: sum.splits)

lemma hono_send_callbacks:
  "callbacks (snd (HonoSSEServerTransport_send ext h m)) = callbacks h"
  "isConnectionClosed (snd (HonoSSEServerTransport_send ext h m)) = isConnectionClosed h"
  by (simp_all add: HonoSSEServerTransport_send_def writeEvent_def split: option.splits)

lemma hono_post_closes:
  "count_list (callbacks (snd (HonoSSEServerTransport_handlePostMessage ext h req pb))) OnClose
     = count_list (callbacks h) OnClose"
  "isConnectionClosed (snd (HonoSSEServerTransport_handlePostMessage ext h req pb))
     = isConnectionClosed h"
  using hono_post_cases [of h ext req pb] by auto

lemma hono_close_closes:
  assumes "count_list (callbacks h) OnClose = (if isConnectionClosed h then 1 else 0)"
  shows "count_list (callbacks (handleConnectionClose h)) OnClose = 1"
  using assms by (simp add: handleConnectionClose_def)

lemma hono_step_closes:
  assumes "count_list (callbacks h) OnClose = (if isConnectionClosed h then 1 else 0)"
  shows "count_list (callbacks (HonoSSEServerTransport_step ext x h)) OnClose
           = (if isConnectionClosed (HonoSSEServerTransport_step ext x h) then 1 else 0)"
proof (cases x)
  case Start
  with assms show ?thesis by (simp add: hono_start_callbacks)
next
  case Close
  with assms show ?thesis
    by (simp add: HonoSSEServerTransport_close_def hono_close_closes)
next
  case (Send m)
  with assms show ?thesis by (simp add: hono_send_callbacks)
next
  case (Post req pb)
  with assms show ?thesis by (simp add: hono_post_closes)
next
  case (Message m)
  with assms show ?thesis by (simp add: handleMessage_state split: sum.splits)
next
  case ConnectionLost
  with assms show ?thesis
    by (simp add: signal_abort_def handleConnectionClose_funpow hono_close_closes)
qed

lemma hono_run_closes:
  "count_list (callbacks h) OnClose = (if isConnectionClosed h then 1 else 0) \<Longrightarrow>
     count_list (callbacks (HonoSSEServerTransport_run ext ops h)) OnClose
       = (if isConnectionClosed (HonoSSEServerTransport_run ext ops h) then 1 else 0)"
proof (induction ops arbitrary: h)
  case Nil
  then show ?case by simp
next
  case (Cons x xs)
  from Cons.prems have "count_list (callbacks (HonoSSEServerTransport_step ext x h)) OnClose
      = (if isConnectionClosed (HonoSSEServerTransport_step ext x h) then 1 else 0)"
    by (rule hono_step_closes)
  then show ?case using Cons.IH by simp
qed

lemma hono_onclose_at_most_once:
  "count_list (callbacks (HonoSSEServerTransport_run ext ops
       (new_HonoSSEServerTransport ep uuid))) OnClose \<le> 1"
proof -
  have "count_list (callbacks (new_HonoSSEServerTransport ep uuid)) OnClose
          = (if isConnectionClosed (new_HonoSSEServerTransport ep uuid) then 1 else 0)"
    by (simp add: new_HonoSSEServerTransport_def)
  then have "count_list (callbacks (HonoSSEServerTransport_run ext ops
       (new_HonoSSEServerTransport ep uuid))) OnClose
     = (if isConnectionClosed (HonoSSEServerTransport_run ext ops
          (new_HonoSSEServerTransport ep uuid)) then 1 else 0)"
    by (rule hono_run_closes)
  then show ?thesis by simp
qed

text \<open>
  C2 does not hold of \<open>SSEServerTransport\<close>, which has no such guard. Two calls of
  \<open>close()\<close> after \<open>start()\<close> call \<open>onclose\<close> twice, for every endpoint, session id and
  environment. A call of \<open>close()\<close> followed by the \<open>close\<close> event of the response calls
  it twice after a \<open>start()\<close> that succeeded, and once after a \<open>start()\<close> that threw
  because \<open>encodeURI\<close> refused the path (no listener was registered then).
\<close>

theorem sse_onclose_fires_twice:
  "callbacks (SSEServerTransport_run ext [Start, Close, ConnectionLost]
       (new_SSEServerTransport ep fresh_response uuid))
     = (case encodeURI ep of Inl e \<Rightarrow> [OnClose] | Inr p \<Rightarrow> [OnClose, OnClose])
   \<and> callbacks (SSEServerTransport_run ext [Start, Close, Close]
       (new_SSEServerTransport ep fresh_response uuid))
     = [OnClose, OnClose]"
proof (intro conjI)
  show "callbacks (SSEServerTransport_run ext [Start, Close, ConnectionLost]
       (new_SSEServerTransport ep fresh_response uuid))
     = (case encodeURI ep of Inl e \<Rightarrow> [OnClose] | Inr p \<Rightarrow> [OnClose, OnClose])"
  proof (cases "encodeURI ep")
    case (Inl e)
    then have "endpoint_data ep uuid = Inl e"
      by (simp add: endpoint_data_def)
    with Inl show ?thesis
      by (simp add: SSEServerTransport_start_def new_SSEServerTransport_def
            fresh_response_def writeHead_def SSEServerTransport_close_def
            res_emit_close_def)
  next
    case (Inr p)
    then have "endpoint_data ep uuid = Inr (p @ ''?sessionId='' @ uuid)"
      by (rule endpoint_data_encoded)
    with Inr show ?thesis
      by (simp add: sse_first_start SSEServerTransport_close_def res_emit_close_def
            on_res_close_def)
  qed
next
  show "callbacks (SSEServerTransport_run ext [Start, Close, Close]
       (new_SSEServerTransport ep fresh_response uuid))
     = [OnClose, OnClose]"
    by (cases "endpoint_data ep uuid")
       (simp_all add: SSEServerTransport_start_def new_SSEServerTransport_def
          fresh_response_def writeHead_def SSEServerTransport_close_def)
qed

theorem sse_onclose_fires_twice_witness:
  "callbacks (SSEServerTransport_run sample_ext [Start, Close, ConnectionLost]
       (new_SSEServerTransport (js ''/message'') fresh_response ''S1''))
     = [OnClose, OnClose]
   \<and> callbacks (SSEServerTransport_run sample_ext [Start, Close, Close]
       (new_SSEServerTransport (js ''/message'') fresh_response ''S1''))
     = [OnClose, OnClose]"
  using sse_onclose_fires_twice
    [where ext = sample_ext and ep = "js ''/message''" and uuid = "''S1''"]
  by (simp add: sample_path)

section \<open>Inbound POST requests\<close>

subsection \<open>Content type and body size\<close>

text \<open>
  \<open>SSEServerTransport\<close> answers 400 and delivers nothing when the parsed media type is
  not \<open>application/json\<close>, and when the body it has to read is longer than
  \<open>MAXIMUM_MESSAGE_SIZE\<close>.
\<close>

lemma sse_rejects_other_media_types:
  assumes "sseResponse t"
    and "contentType_parse ext (case content_type_header req of None \<Rightarrow> [] | Some c \<Rightarrow> c)
           = Inr ct"
    and "ctype ct \<noteq> ''application/json''"
  shows "fst (fst (snd (SSEServerTransport_handlePostMessage ext t req pb))) = 400
         \<and> delivered (callbacks (snd (snd (SSEServerTransport_handlePostMessage ext t req pb))))
             = delivered (callbacks t)"
  using assms
  by (simp add: SSEServerTransport_handlePostMessage_def SSEServerTransport_readBody_def
        delivered_append)

lemma sse_rejects_oversized_body:
  assumes "sseResponse t"
    and "contentType_parse ext (case content_type_header req of None \<Rightarrow> [] | Some c \<Rightarrow> c)
           = Inr ct"
    and "ctype ct = ''application/json''"
    and "nullish pb = None"
    and "MAXIMUM_MESSAGE_SIZE < length (body_bytes req)"
  shows "fst (fst (snd (SSEServerTransport_handlePostMessage ext t req pb))) = 400
         \<and> delivered (callbacks (snd (snd (SSEServerTransport_handlePostMessage ext t req pb))))
             = delivered (callbacks t)"
  using assms
  by (simp add: SSEServerTransport_handlePostMessage_def SSEServerTransport_readBody_def
        getRawBody_def delivered_append split: option.splits)

text \<open>
  \<open>HonoSSEServerTransport\<close> accepts a request as soon as its content-type header contains
  the text \<open>application/json\<close>, and reads and parses the whole body.
\<close>

lemma hono_accepts:
  assumes "writer h \<noteq> None" and "\<not> isConnectionClosed h"
    and "content_type_header req = Some ct"
    and "string_includes ct ''application/json''"
    and "JSON_parse ext (body_bytes req) = Inr v"
    and "schema_parse ext v = Inr m"
  shows "HonoSSEServerTransport_handlePostMessage ext h req None
           = (Returned (202, ''Accepted''), h\<lparr>callbacks := callbacks h @ [OnMessage m]\<rparr>)"
  using assms
  by (simp add: HonoSSEServerTransport_handlePostMessage_def
        HonoSSEServerTransport_readBody_def handleMessage_def)

text \<open>
  C3 does not hold of \<open>HonoSSEServerTransport\<close>. A request whose content type is
  \<open>text/plain; a=application/json\<close>, of media type \<open>text/plain\<close>, is answered with 202
  and its message is handed to \<open>onmessage\<close>, whenever the transport is connected and the
  body parses and validates.
\<close>

theorem hono_accepts_text_plain:
  assumes "writer h \<noteq> None" and "\<not> isConnectionClosed h"
    and "content_type_header req = Some ''text/plain; a=application/json''"
    and "JSON_parse ext (body_bytes req) = Inr v"
    and "schema_parse ext v = Inr m"
  shows "HonoSSEServerTransport_handlePostMessage ext h req None
           = (Returned (202, ''Accepted''), h\<lparr>callbacks := callbacks h @ [OnMessage m]\<rparr>)"
  using hono_accepts [OF assms(1) assms(2) assms(3) includes_parameter assms(4) assms(5)] .

theorem hono_accepts_text_plain_witness:
  "HonoSSEServerTransport_handlePostMessage sample_ext started_hono
       (post ''text/plain; a=application/json'' ping_text) None
     = (Returned (202, ''Accepted''),
        started_hono\<lparr>callbacks := callbacks started_hono @ [OnMessage ping]\<rparr>)"
  using hono_accepts_text_plain
    [where h = started_hono and ext = sample_ext
       and req = "post ''text/plain; a=application/json'' ping_text"
       and v = ping and m = ping]
  by (simp add: started_hono_connected post_def sample_parse_ping sample_schema_ping)

text \<open>
  C4 does not hold of \<open>HonoSSEServerTransport\<close>. A request of content type
  \<open>application/json\<close> whose body is longer than \<open>MAXIMUM_MESSAGE_SIZE\<close> is answered with
  202 and its message is handed to \<open>onmessage\<close>, whenever the transport is connected and
  the body parses and validates: the limit plays no part.
\<close>

theorem hono_accepts_oversized_body:
  assumes "writer h \<noteq> None" and "\<not> isConnectionClosed h"
    and "content_type_header req = Some ''application/json''"
    and "MAXIMUM_MESSAGE_SIZE < length (body_bytes req)"
    and "JSON_parse ext (body_bytes req) = Inr v"
    and "schema_parse ext v = Inr m"
  shows "HonoSSEServerTransport_handlePostMessage ext h req None
           = (Returned (202, ''Accepted''), h\<lparr>callbacks := callbacks h @ [OnMessage m]\<rparr>)"
  using hono_accepts [OF assms(1) assms(2) assms(3) includes_exact assms(5) assms(6)] .

theorem hono_accepts_oversized_body_witness:
  "MAXIMUM_MESSAGE_SIZE < length oversized_body
   \<and> HonoSSEServerTransport_handlePostMessage sample_ext started_hono
       (post ''application/json'' oversized_body) None
     = (Returned (202, ''Accepted''),
        started_hono\<lparr>callbacks := callbacks started_hono @ [OnMessage ping]\<rparr>)"
  using hono_accepts_oversized_body
    [where h = started_hono and ext = sample_ext
       and req = "post ''application/json'' oversized_body"
       and v = ping and m = ping]
  by (simp add: started_hono_connected post_def oversized_body_length
        oversized_body_parses sample_schema_ping)

subsection \<open>Validation before delivery\<close>

lemma sse_post_delivers:
  assumes "SSEServerTransport_handlePostMessage ext t req pb = (out, reply, t')"
  shows "(\<exists>v m. schema_parse ext v = Inr m \<and> reply = (202, ''Accepted'')
            \<and> delivered (callbacks t') = delivered (callbacks t) @ [m])
         \<or> (fst reply \<in> {400, 500} \<and> delivered (callbacks t') = delivered (callbacks t))"
  using sse_post_cases [of t ext req pb] assms
  by (elim disjE exE conjE) (auto simp add: delivered_append)

lemma hono_post_delivers:
  assumes "HonoSSEServerTransport_handlePostMessage ext h req pb = (hout, h')"
  shows "(\<exists>v m. schema_parse ext v = Inr m \<and> hout = Returned (202, ''Accepted'')
            \<and> delivered (callbacks h') = delivered (callbacks h) @ [m])
         \<or> (\<exists>status text. hout = Returned (status, text) \<and> status \<in> {400, 500}
            \<and> delivered (callbacks h') = delivered (callbacks h))"
  using hono_post_cases [of h ext req pb] assms
  by (elim disjE exE conjE) (auto simp add: delivered_append)

text \<open>
  C7. In both classes a call of \<open>handlePostMessage\<close> hands to \<open>onmessage\<close> either
  nothing, with an answer of status 400 or 500, or exactly one message, which is a result
  of \<open>JSONRPCMessageSchema.parse\<close>, with the answer 202. On a connected transport, a
  payload that \<open>JSON.parse\<close> rejects or that the schema rejects is answered with 400 and
  nothing is handed to \<open>onmessage\<close>. \<open>handleMessage\<close> called directly hands over the
  schema's result or throws the schema's error.
\<close>

theorem onmessage_only_validated:
  "(SSEServerTransport_handlePostMessage ext t req pb = (out, reply, t') \<longrightarrow>
      (\<exists>v m. schema_parse ext v = Inr m \<and> reply = (202, ''Accepted'')
          \<and> delivered (callbacks t') = delivered (callbacks t) @ [m])
      \<or> (fst reply \<in> {400, 500} \<and> delivered (callbacks t') = delivered (callbacks t)))
   \<and> (SSEServerTransport_handlePostMessage ext t req pb = (out, reply, t')
        \<and> sseResponse t \<and> SSEServerTransport_readBody ext req pb = Inr body
        \<and> (case body of JStr s \<Rightarrow> JSON_parse ext s | _ \<Rightarrow> Inr body) = Inl e \<longrightarrow>
      fst reply = 400 \<and> delivered (callbacks t') = delivered (callbacks t))
   \<and> (SSEServerTransport_handlePostMessage ext t req pb = (out, reply, t')
        \<and> sseResponse t \<and> SSEServerTransport_readBody ext req pb = Inr body
        \<and> (case body of JStr s \<Rightarrow> JSON_parse ext s | _ \<Rightarrow> Inr body) = Inr v
        \<and> schema_parse ext v = Inl e \<longrightarrow>
      fst reply = 400 \<and> delivered (callbacks t') = delivered (callbacks t))
   \<and> (HonoSSEServerTransport_handlePostMessage ext h req pb = (hout, h') \<longrightarrow>
      (\<exists>v m. schema_parse ext v = Inr m \<and> hout = Returned (202, ''Accepted'')
          \<and> delivered (callbacks h') = delivered (callbacks h) @ [m])
      \<or> (\<exists>status text. hout = Returned (status, text) \<and> status \<in> {400, 500}
          \<and> delivered (callbacks h') = delivered (callbacks h)))
   \<and> (HonoSSEServerTransport_handlePostMessage ext h req pb = (hout, h')
        \<and> writer h \<noteq> None \<and> \<not> isConnectionClosed h
        \<and> content_type_header req = Some ct \<and> string_includes ct ''application/json''
        \<and> nullish pb = None \<and> JSON_parse ext (body_bytes req) = Inl e \<longrightarrow>
      (\<exists>text. hout = Returned (400, text))
        \<and> delivered (callbacks h') = delivered (callbacks h))
   \<and> (HonoSSEServerTransport_handlePostMessage ext h req pb = (hout, h')
        \<and> writer h \<noteq> None \<and> \<not> isConnectionClosed h
        \<and> HonoSSEServerTransport_readBody ext req pb = Inr v
        \<and> schema_parse ext v = Inl e \<longrightarrow>
      (\<exists>text. hout = Returned (400, text))
        \<and> delivered (callbacks h') = delivered (callbacks h))
   \<and> (handleMessage ext b v = (mout, b') \<longrightarrow>
      (\<exists>m. schema_parse ext v = Inr m \<and> mout = Returned ()
          \<and> delivered (callbacks b') = delivered (callbacks b) @ [m])
      \<or> (\<exists>e. schema_parse ext v = Inl e \<and> mout = Threw e
          \<and> delivered (callbacks b') = delivered (callbacks b)))"
proof (intro conjI)
  show "SSEServerTransport_handlePostMessage ext t req pb = (out, reply, t') \<longrightarrow>
      (\<exists>v m. schema_parse ext v = Inr m \<and> reply = (202, ''Accepted'')
          \<and> delivered (callbacks t') = delivered (callbacks t) @ [m])
      \<or> (fst reply \<in> {400, 500} \<and> delivered (callbacks t') = delivered (callbacks t))"
    using sse_post_delivers [of ext t req pb out reply t'] by blast
next
  show "SSEServerTransport_handlePostMessage ext t req pb = (out, reply, t')
        \<and> sseResponse t \<and> SSEServerTransport_readBody ext req pb = Inr body
        \<and> (case body of JStr s \<Rightarrow> JSON_parse ext s | _ \<Rightarrow> Inr body) = Inl e \<longrightarrow>
      fst reply = 400 \<and> delivered (callbacks t') = delivered (callbacks t)"
    by (auto simp add: SSEServerTransport_handlePostMessage_def)
next
  show "SSEServerTransport_handlePostMessage ext t req pb = (out, reply, t')
        \<and> sseResponse t \<and> SSEServerTransport_readBody ext req pb = Inr body
        \<and> (case body of JStr s \<Rightarrow> JSON_parse ext s | _ \<Rightarrow> Inr body) = Inr v
        \<and> schema_parse ext v = Inl e \<longrightarrow>
      fst reply = 400 \<and> delivered (callbacks t') = delivered (callbacks t)"
    by (auto simp add: SSEServerTransport_handlePostMessage_def handleMessage_def
          delivered_append)
next
  show "HonoSSEServerTransport_handlePostMessage ext h req pb = (hout, h') \<longrightarrow>
      (\<exists>v m. schema_parse ext v = Inr m \<and> hout = Returned (202, ''Accepted'')
          \<and> delivered (callbacks h') = delivered (callbacks h) @ [m])
      \<or> (\<exists>status text. hout = Returned (status, text) \<and> status \<in> {400, 500}
          \<and> delivered (callbacks h') = delivered (callbacks h))"
    using hono_post_delivers [of ext h req pb hout h'] by blast
next
  have "HonoSSEServerTransport_readBody ext req pb = Inl e"
    if "content_type_header req = Some ct" and "string_includes ct ''application/json''"
      and "nullish pb = None" and "JSON_parse ext (body_bytes req) = Inl e"
    using that by (simp add: HonoSSEServerTransport_readBody_def)
  then show "HonoSSEServerTransport_handlePostMessage ext h req pb = (hout, h')
        \<and> writer h \<noteq> None \<and> \<not> isConnectionClosed h
        \<and> content_type_header req = Some ct \<and> string_includes ct ''application/json''
        \<and> nullish pb = None \<and> JSON_parse ext (body_bytes req) = Inl e \<longrightarrow>
      (\<exists>text. hout = Returned (400, text))
        \<and> delivered (callbacks h') = delivered (callbacks h)"
    by (auto simp add: HonoSSEServerTransport_handlePostMessage_def delivered_append)
next
  show "HonoSSEServerTransport_handlePostMessage ext h req pb = (hout, h')
        \<and> writer h \<noteq> None \<and> \<not> isConnectionClosed h
        \<and> HonoSSEServerTransport_readBody ext req pb = Inr v
        \<and> schema_parse ext v = Inl e \<longrightarrow>
      (\<exists>text. hout = Returned (400, text))
        \<and> delivered (callbacks h') = delivered (callbacks h)"
    by (auto simp add: HonoSSEServerTransport_handlePostMessage_def handleMessage_def
          delivered_append)
next
  show "handleMessage ext b v = (mout, b') \<longrightarrow>
      (\<exists>m. schema_parse ext v = Inr m \<and> mout = Returned ()
          \<and> delivered (callbacks b') = delivered (callbacks b) @ [m])
      \<or> (\<exists>e. schema_parse ext v = Inl e \<and> mout = Threw e
          \<and> delivered (callbacks b') = delivered (callbacks b))"
    by (cases "schema_parse ext v") (auto simp add: handleMessage_def delivered_append)
qed

theorem onmessage_only_validated_witness:
  "fst (fst (snd (SSEServerTransport_handlePostMessage sample_ext started_sse
                    (post ''application/json'' ''{'') None))) = 400
   \<and> delivered (callbacks (snd (snd (SSEServerTransport_handlePostMessage sample_ext
                    started_sse (post ''application/json'' ''{'') None))))
       = delivered (callbacks started_sse)
   \<and> (\<exists>text. fst (HonoSSEServerTransport_handlePostMessage sample_ext started_hono
                    (post ''application/json'' ''{'') None) = Returned (400, text))
   \<and> fst (fst (snd (SSEServerTransport_handlePostMessage sample_ext started_sse
                    (post ''application/json'' []) (Some (JObj []))))) = 400
   \<and> (\<exists>text. fst (HonoSSEServerTransport_handlePostMessage sample_ext started_hono
                    (post ''application/json'' []) (Some (JObj []))) = Returned (400, text))"
proof -
  let ?req = "post ''application/json'' ''{''"
  let ?e = "JsError ''SyntaxError'' ''Unexpected token''"
  let ?R = "SSEServerTransport_handlePostMessage sample_ext started_sse ?req None"
  let ?H = "HonoSSEServerTransport_handlePostMessage sample_ext started_hono ?req None"
  note inst = onmessage_only_validated
    [where ext = sample_ext and t = started_sse and h = started_hono
       and req = ?req and pb = None
       and out = "fst ?R" and reply = "fst (snd ?R)" and t' = "snd (snd ?R)"
       and hout = "fst ?H" and h' = "snd ?H"
       and body = "JStr ''{''" and ct = "''application/json''" and e = ?e]
  have read: "SSEServerTransport_readBody sample_ext ?req None = Inr (JStr ''{'')"
    by (simp add: sample_readBody MAXIMUM_MESSAGE_SIZE_def)
  have sse: "fst (fst (snd ?R)) = 400
      \<and> delivered (callbacks (snd (snd ?R))) = delivered (callbacks started_sse)"
    by (rule inst [THEN conjunct2, THEN conjunct1, THEN mp])
       (simp add: started_sse_connected read sample_parse_brace)
  have hono: "(\<exists>text. fst ?H = Returned (400, text))
      \<and> delivered (callbacks (snd ?H)) = delivered (callbacks started_hono)"
    by (rule inst [THEN conjunct2, THEN conjunct2, THEN conjunct2, THEN conjunct2,
                   THEN conjunct1, THEN mp])
       (simp add: started_hono_connected includes_exact sample_parse_brace)
  let ?req2 = "post ''application/json'' []"
  let ?e2 = "JsError ''ZodError'' ''Invalid input''"
  let ?R2 = "SSEServerTransport_handlePostMessage sample_ext started_sse ?req2 (Some (JObj []))"
  let ?H2 = "HonoSSEServerTransport_handlePostMessage sample_ext started_hono ?req2
               (Some (JObj []))"
  note inst2 = onmessage_only_validated
    [where ext = sample_ext and t = started_sse and h = started_hono
       and req = ?req2 and pb = "Some (JObj [])"
       and out = "fst ?R2" and reply = "fst (snd ?R2)" and t' = "snd (snd ?R2)"
       and hout = "fst ?H2" and h' = "snd ?H2"
       and body = "JObj []" and v = "JObj []" and e = ?e2]
  have sse2: "fst (fst (snd ?R2)) = 400
      \<and> delivered (callbacks (snd (snd ?R2))) = delivered (callbacks started_sse)"
    by (rule inst2 [THEN conjunct2, THEN conjunct2, THEN conjunct1, THEN mp])
       (simp add: started_sse_connected sample_readBody_parsed sample_schema_empty)
  have hono2: "(\<exists>text. fst ?H2 = Returned (400, text))
      \<and> delivered (callbacks (snd ?H2)) = delivered (callbacks started_hono)"
    by (rule inst2 [THEN conjunct2, THEN conjunct2, THEN conjunct2, THEN conjunct2,
                    THEN conjunct2, THEN conjunct1, THEN mp])
       (simp add: started_hono_connected sample_readBody_parsed sample_schema_empty)
  from sse hono sse2 hono2 show ?thesis by blast
qed

subsection \<open>A transport that is not streaming\<close>

text \<open>
  C10. When \<open>_sseResponse\<close> is not set, \<open>SSEServerTransport.handlePostMessage\<close> writes
  the answer 500 \<open>SSE connection not established\<close> and throws an error with that message.
  When \<open>_writer\<close> is not set or the connection is closed,
  \<open>HonoSSEServerTransport.handlePostMessage\<close> returns the same answer and does not throw.
  Neither changes the transport.
\<close>

theorem not_streaming_post:
  "(\<not> sseResponse t \<longrightarrow>
      SSEServerTransport_handlePostMessage ext t req parsedBody
        = (Threw (JsError ''Error'' ''SSE connection not established''),
           (500, ''SSE connection not established''), t))
   \<and> (writer h = None \<or> isConnectionClosed h \<longrightarrow>
      HonoSSEServerTransport_handlePostMessage ext h req parsedBody
        = (Returned (500, ''SSE connection not established''), h))"
  by (simp add: SSEServerTransport_handlePostMessage_def
        HonoSSEServerTransport_handlePostMessage_def)

theorem not_streaming_post_witness:
  "SSEServerTransport_handlePostMessage sample_ext
       (new_SSEServerTransport (js ''/message'') fresh_response ''S1'')
       (post ''application/json'' ping_text) None
     = (Threw (JsError ''Error'' ''SSE connection not established''),
        (500, ''SSE connection not established''),
        new_SSEServerTransport (js ''/message'') fresh_response ''S1'')
   \<and> HonoSSEServerTransport_handlePostMessage sample_ext
       (HonoSSEServerTransport_close started_hono)
       (post ''application/json'' ping_text) None
     = (Returned (500, ''SSE connection not established''),
        HonoSSEServerTransport_close started_hono)"
  using not_streaming_post
    [where t = "new_SSEServerTransport (js ''/message'') fresh_response ''S1''"
       and h = "HonoSSEServerTransport_close started_hono"
       and ext = sample_ext and req = "post ''application/json'' ping_text"
       and parsedBody = None]
  by (simp add: new_SSEServerTransport_def HonoSSEServerTransport_close_def)

section \<open>Sending after the close\<close>

lemma sse_step_stays_disconnected:
  assumes "\<not> sseResponse t" and "x \<noteq> Start"
  shows "\<not> sseResponse (SSEServerTransport_step ext x t)"
proof (cases x)
  case Start
  with assms show ?thesis by simp
next
  case Close
  then show ?thesis by (simp add: SSEServerTransport_close_def)
next
  case (Send m)
  with assms show ?thesis by (simp add: SSEServerTransport_send_def)
next
  case (Post req pb)
  with assms show ?thesis by (simp add: SSEServerTransport_handlePostMessage_def)
next
  case (Message m)
  with assms show ?thesis by (simp add: handleMessage_def split: sum.splits)
next
  case ConnectionLost
  with assms show ?thesis by (simp add: res_emit_close_def on_res_close_funpow)
qed

lemma sse_run_stays_disconnected:
  "\<not> sseResponse t \<Longrightarrow> Start \<notin> set ops \<Longrightarrow>
     \<not> sseResponse (SSEServerTransport_run ext ops t)"
proof (induction ops arbitrary: t)
  case Nil
  then show ?case by simp
next
  case (Cons x xs)
  from Cons.prems have "x \<noteq> Start" and "Start \<notin> set xs" by auto
  with Cons.prems(1) have "\<not> sseResponse (SSEServerTransport_step ext x t)"
    by (simp add: sse_step_stays_disconnected)
  with Cons.IH \<open>Start \<notin> set xs\<close> show ?case by simp
qed

lemma sse_send_disconnected:
  "\<not> sseResponse t \<Longrightarrow>
     SSEServerTransport_send ext t m = (Threw (JsError ''Error'' ''Not connected''), t)"
  by (simp add: SSEServerTransport_send_def)

lemma hono_step_stays_closed:
  assumes "isConnectionClosed h"
  shows "isConnectionClosed (HonoSSEServerTransport_step ext x h)"
proof (cases x)
  case Start
  with assms show ?thesis by (simp add: hono_start_callbacks)
next
  case Close
  then show ?thesis by (simp add: HonoSSEServerTransport_close_def)
next
  case (Send m)
  with assms show ?thesis by (simp add: HonoSSEServerTransport_send_def)
next
  case (Post req pb)
  with assms show ?thesis by (simp add: HonoSSEServerTransport_handlePostMessage_def)
next
  case (Message m)
  with assms show ?thesis by (simp add: handleMessage_def split: sum.splits)
next
  case ConnectionLost
  with assms show ?thesis by (simp add: signal_abort_def handleConnectionClose_funpow)
qed

lemma hono_run_stays_closed:
  "isConnectionClosed h \<Longrightarrow> isConnectionClosed (HonoSSEServerTransport_run ext ops h)"
  by (induction ops arbitrary: h) (simp_all add: hono_step_stays_closed)

lemma hono_send_closed:
  "isConnectionClosed h \<Longrightarrow>
     HonoSSEServerTransport_send ext h m = (Threw (JsError ''Error'' ''Not connected''), h)"
  by (simp add: HonoSSEServerTransport_send_def)

text \<open>
  After \<open>close()\<close>, and after the close event of the response or the abort signal has run
  a registered listener, \<open>send\<close> throws \<open>Not connected\<close> and leaves the transport, and
  so its outbound stream, as it was. For \<open>HonoSSEServerTransport\<close> this holds after any
  further operations; for \<open>SSEServerTransport\<close> after any further operations other than
  \<open>start()\<close>.
\<close>

lemma send_after_close_without_restart:
  "(Start \<notin> set ops \<longrightarrow>
      SSEServerTransport_send ext
          (SSEServerTransport_run ext ops (SSEServerTransport_close t)) m
        = (Threw (JsError ''Error'' ''Not connected''),
           SSEServerTransport_run ext ops (SSEServerTransport_close t)))
   \<and> (Start \<notin> set ops \<and> 0 < close_listeners (res t) \<longrightarrow>
      SSEServerTransport_send ext
          (SSEServerTransport_run ext ops (res_emit_close t)) m
        = (Threw (JsError ''Error'' ''Not connected''),
           SSEServerTransport_run ext ops (res_emit_close t)))
   \<and> HonoSSEServerTransport_send ext
          (HonoSSEServerTransport_run ext ops' (HonoSSEServerTransport_close h)) m
        = (Threw (JsError ''Error'' ''Not connected''),
           HonoSSEServerTransport_run ext ops' (HonoSSEServerTransport_close h))
   \<and> (0 < abort_listeners h \<longrightarrow>
      HonoSSEServerTransport_send ext
          (HonoSSEServerTransport_run ext ops' (signal_abort h)) m
        = (Threw (JsError ''Error'' ''Not connected''),
           HonoSSEServerTransport_run ext ops' (signal_abort h)))"
proof (intro conjI impI)
  assume "Start \<notin> set ops"
  moreover have "\<not> sseResponse (SSEServerTransport_close t)"
    by (simp add: SSEServerTransport_close_def)
  ultimately show "SSEServerTransport_send ext
          (SSEServerTransport_run ext ops (SSEServerTransport_close t)) m
        = (Threw (JsError ''Error'' ''Not connected''),
           SSEServerTransport_run ext ops (SSEServerTransport_close t))"
    by (simp add: sse_send_disconnected sse_run_stays_disconnected)
next
  assume a: "Start \<notin> set ops \<and> 0 < close_listeners (res t)"
  then have "\<not> sseResponse (res_emit_close t)"
    by (simp add: res_emit_close_def on_res_close_funpow)
  with a show "SSEServerTransport_send ext
          (SSEServerTransport_run ext ops (res_emit_close t)) m
        = (Threw (JsError ''Error'' ''Not connected''),
           SSEServerTransport_run ext ops (res_emit_close t))"
    by (simp add: sse_send_disconnected sse_run_stays_disconnected)
next
  have "isConnectionClosed (HonoSSEServerTransport_close h)"
    by (simp add: HonoSSEServerTransport_close_def)
  then show "HonoSSEServerTransport_send ext
          (HonoSSEServerTransport_run ext ops' (HonoSSEServerTransport_close h)) m
        = (Threw (JsError ''Error'' ''Not connected''),
           HonoSSEServerTransport_run ext ops' (HonoSSEServerTransport_close h))"
    by (simp add: hono_send_closed hono_run_stays_closed)
next
  assume "0 < abort_listeners h"
  then have "isConnectionClosed (signal_abort h)"
    by (simp add: signal_abort_def handleConnectionClose_funpow)
  then show "HonoSSEServerTransport_send ext
          (HonoSSEServerTransport_run ext ops' (signal_abort h)) m
        = (Threw (JsError ''Error'' ''Not connected''),
           HonoSSEServerTransport_run ext ops' (signal_abort h))"
    by (simp add: hono_send_closed hono_run_stays_closed)
qed

text \<open>
  C6 does not hold of \<open>SSEServerTransport\<close>. \<open>close()\<close> leaves no mark on a transport
  that has not started: after \<open>close()\<close> and then \<open>start()\<close> on a new transport, \<open>send\<close>
  returns normally and writes the message frame behind the endpoint frame.
\<close>

theorem sse_send_after_close_and_start:
  assumes "encodeURI ep = Inr p"
  shows "SSEServerTransport_send ext
           (SSEServerTransport_run ext [Close, Start]
              (new_SSEServerTransport ep fresh_response uuid)) m
         = (Returned (),
            \<lparr>endpoint = ep, sessionId = uuid, callbacks = [OnClose], sseResponse = True,
             res = \<lparr>heads = [(200, sse_headers)],
                    chunks = [sse_frame ''endpoint'' (p @ ''?sessionId='' @ uuid),
                              sse_frame ''message'' (JSON_stringify ext m)],
                    ended = False, close_listeners = 1\<rparr>\<rparr>)"
proof -
  from assms have "endpoint_data ep uuid = Inr (p @ ''?sessionId='' @ uuid)"
    by (rule endpoint_data_encoded)
  then show ?thesis
    by (simp add: SSEServerTransport_close_def SSEServerTransport_start_def
          SSEServerTransport_send_def new_SSEServerTransport_def fresh_response_def
          writeHead_def)
qed

theorem sse_send_after_close_and_start_witness:
  "SSEServerTransport_send sample_ext
       (SSEServerTransport_run sample_ext [Close, Start]
          (new_SSEServerTransport (js ''/message'') fresh_response ''S1'')) ping
     = (Returned (),
        \<lparr>endpoint = js ''/message'', sessionId = ''S1'', callbacks = [OnClose],
         sseResponse = True,
         res = \<lparr>heads = [(200, sse_headers)],
                chunks = [sse_frame ''endpoint'' (''/message'' @ ''?sessionId='' @ ''S1''),
                          sse_frame ''message'' (JSON_stringify sample_ext ping)],
                ended = False, close_listeners = 1\<rparr>\<rparr>)"
  using sse_send_after_close_and_start
    [where ext = sample_ext and ep = "js ''/message''" and p = "''/message''"
       and uuid = "''S1''" and m = ping]
  by (simp add: sample_path)

section \<open>Starting\<close>

subsection \<open>Sequences of operations\<close>

lemma sse_run_append:
  "SSEServerTransport_run ext (xs @ ys) t
     = SSEServerTransport_run ext ys (SSEServerTransport_run ext xs t)"
  by (induction xs arbitrary: t) simp_all

lemma hono_run_append:
  "HonoSSEServerTransport_run ext (xs @ ys) h
     = HonoSSEServerTransport_run ext ys (HonoSSEServerTransport_run ext xs h)"
  by (induction xs arbitrary: h) simp_all

subsection \<open>A second start\<close>

text \<open>
  On an \<open>SSEServerTransport\<close>, \<open>_sseResponse\<close> is set only after the head was written,
  every call of \<open>start\<close> leaves the head written, and the head stays written. So a later
  \<open>start\<close> throws, from its guard or from \<open>writeHead\<close>, before it changes anything.
\<close>

lemma sse_step_guard:
  assumes "sseResponse t \<longrightarrow> heads (res t) \<noteq> []"
  shows "sseResponse (SSEServerTransport_step ext x t)
           \<longrightarrow> heads (res (SSEServerTransport_step ext x t)) \<noteq> []"
proof (cases x)
  case Start
  with assms show ?thesis
    by (simp add: SSEServerTransport_start_def writeHead_def split: sum.splits)
next
  case Close
  then show ?thesis by (simp add: SSEServerTransport_close_def)
next
  case (Send m)
  with assms show ?thesis by (simp add: SSEServerTransport_send_def)
next
  case (Post req pb)
  obtain cs where "snd (snd (SSEServerTransport_handlePostMessage ext t req pb))
      = t\<lparr>callbacks := cs\<rparr>"
    using sse_post_state by blast
  with assms Post show ?thesis by simp
next
  case (Message m)
  with assms show ?thesis by (simp add: handleMessage_state)
next
  case ConnectionLost
  with assms show ?thesis by (simp add: res_emit_close_def on_res_close_funpow)
qed

lemma sse_run_guard:
  "sseResponse t \<longrightarrow> heads (res t) \<noteq> [] \<Longrightarrow>
     sseResponse (SSEServerTransport_run ext ops t)
       \<longrightarrow> heads (res (SSEServerTransport_run ext ops t)) \<noteq> []"
proof (induction ops arbitrary: t)
  case Nil
  then show ?case by simp
next
  case (Cons x xs)
  from Cons.prems have "sseResponse (SSEServerTransport_step ext x t)
           \<longrightarrow> heads (res (SSEServerTransport_step ext x t)) \<noteq> []"
    by (rule sse_step_guard)
  then show ?case using Cons.IH by simp
qed

lemma sse_start_sends_head:
  assumes "sseResponse t \<longrightarrow> heads (res t) \<noteq> []"
  shows "heads (res (snd (SSEServerTransport_start t))) \<noteq> []"
  using assms
  by (simp add: SSEServerTransport_start_def writeHead_def split: sum.splits)

lemma sse_step_head_sent:
  assumes "heads (res t) \<noteq> []"
  shows "heads (res (SSEServerTransport_step ext x t)) \<noteq> []"
proof (cases x)
  case Start
  with assms show ?thesis
    by (simp add: SSEServerTransport_start_def writeHead_def)
next
  case Close
  with assms show ?thesis by (simp add: SSEServerTransport_close_def)
next
  case (Send m)
  with assms show ?thesis by (simp add: SSEServerTransport_send_def)
next
  case (Post req pb)
  obtain cs where "snd (snd (SSEServerTransport_handlePostMessage ext t req pb))
      = t\<lparr>callbacks := cs\<rparr>"
    using sse_post_state by blast
  with assms Post show ?thesis by simp
next
  case (Message m)
  with assms show ?thesis by (simp add: handleMessage_state)
next
  case ConnectionLost
  with assms show ?thesis by (simp add: res_emit_close_def on_res_close_funpow)
qed

lemma sse_run_head_sent:
  "heads (res t) \<noteq> [] \<Longrightarrow> heads (res (SSEServerTransport_run ext ops t)) \<noteq> []"
proof (induction ops arbitrary: t)
  case Nil
  then show ?case by simp
next
  case (Cons x xs)
  from Cons.prems have "heads (res (SSEServerTransport_step ext x t)) \<noteq> []"
    by (rule sse_step_head_sent)
  then show ?case using Cons.IH by simp
qed

lemma sse_second_start_throws:
  "\<exists>e. SSEServerTransport_start
          (SSEServerTransport_run ext (ops1 @ Start # ops2)
             (new_SSEServerTransport ep fresh_response uuid))
        = (Threw e,
           SSEServerTransport_run ext (ops1 @ Start # ops2)
             (new_SSEServerTransport ep fresh_response uuid))"
proof -
  let ?t0 = "new_SSEServerTransport ep fresh_response uuid"
  let ?t1 = "SSEServerTransport_run ext ops1 ?t0"
  let ?t2 = "snd (SSEServerTransport_start ?t1)"
  let ?t3 = "SSEServerTransport_run ext ops2 ?t2"
  have "sseResponse ?t0 \<longrightarrow> heads (res ?t0) \<noteq> []"
    by (simp add: new_SSEServerTransport_def)
  then have "sseResponse ?t1 \<longrightarrow> heads (res ?t1) \<noteq> []"
    by (rule sse_run_guard)
  then have "heads (res ?t2) \<noteq> []"
    by (rule sse_start_sends_head)
  then have "heads (res ?t3) \<noteq> []"
    by (rule sse_run_head_sent)
  then have "\<exists>e. SSEServerTransport_start ?t3 = (Threw e, ?t3)"
    by (simp add: sse_start_blocked)
  then show ?thesis
    by (simp add: sse_run_append)
qed

text \<open>
  On a \<open>HonoSSEServerTransport\<close>, every call of \<open>start\<close> leaves \<open>_writer\<close> set, and from
  then on \<open>_writer\<close> is set or the connection is closed. So a later \<open>start\<close> throws:
  \<open>already started\<close> from its guard, or, once closed, an error on the way to the write,
  after it has replaced \<open>_writer\<close> and \<open>context.res\<close> by a new, empty stream.
\<close>

lemma hono_start_sets_writer: "writer (snd (HonoSSEServerTransport_start h)) \<noteq> None"
  by (simp add: HonoSSEServerTransport_start_def writeEvent_def split: sum.splits)

lemma hono_step_once_started:
  assumes "writer h \<noteq> None \<or> isConnectionClosed h"
  shows "writer (HonoSSEServerTransport_step ext x h) \<noteq> None
         \<or> isConnectionClosed (HonoSSEServerTransport_step ext x h)"
proof (cases x)
  case Start
  then show ?thesis using hono_start_sets_writer [of h] by simp
next
  case Close
  then show ?thesis by (simp add: HonoSSEServerTransport_close_def)
next
  case (Send m)
  with assms show ?thesis
    by (auto simp add: HonoSSEServerTransport_send_def writeEvent_def)
next
  case (Post req pb)
  obtain cs where "snd (HonoSSEServerTransport_handlePostMessage ext h req pb)
      = h\<lparr>callbacks := cs\<rparr>"
    using hono_post_state by blast
  with assms Post show ?thesis by simp
next
  case (Message m)
  with assms show ?thesis by (simp add: handleMessage_state)
next
  case ConnectionLost
  with assms show ?thesis
    by (simp add: signal_abort_def handleConnectionClose_funpow)
qed

lemma hono_run_once_started:
  "writer h \<noteq> None \<or> isConnectionClosed h \<Longrightarrow>
     writer (HonoSSEServerTransport_run ext ops h) \<noteq> None
     \<or> isConnectionClosed (HonoSSEServerTransport_run ext ops h)"
proof (induction ops arbitrary: h)
  case Nil
  then show ?case by simp
next
  case (Cons x xs)
  from Cons.prems have "writer (HonoSSEServerTransport_step ext x h) \<noteq> None
         \<or> isConnectionClosed (HonoSSEServerTransport_step ext x h)"
    by (rule hono_step_once_started)
  then show ?case using Cons.IH by simp
qed

lemma hono_restart:
  assumes "writer h \<noteq> None \<or> isConnectionClosed h"
  shows "(\<exists>e. fst (HonoSSEServerTransport_start h) = Threw e)
         \<and> callbacks (snd (HonoSSEServerTransport_start h)) = callbacks h
         \<and> isConnectionClosed (snd (HonoSSEServerTransport_start h)) = isConnectionClosed h
         \<and> released (snd (HonoSSEServerTransport_start h)) = released h
         \<and> (writer (snd (HonoSSEServerTransport_start h)) = writer h
            \<or> (isConnectionClosed h
               \<and> writer (snd (HonoSSEServerTransport_start h)) = Some []))"
proof (cases "writer h")
  case None
  with assms have closed: "isConnectionClosed h" by simp
  from hono_start_closed [OF None closed] obtain e where
    "HonoSSEServerTransport_start h
       = (Threw e, h\<lparr>writer := Some [], responses := Suc (responses h)\<rparr>)" ..
  with closed show ?thesis by simp
next
  case (Some w)
  then have "writer h \<noteq> None" by simp
  from hono_start_blocked [OF this] obtain e where
    "HonoSSEServerTransport_start h = (Threw e, h)" ..
  then show ?thesis by simp
qed

lemma hono_once_started_after:
  "writer (HonoSSEServerTransport_run ext (ops1 @ Start # ops2) h) \<noteq> None
   \<or> isConnectionClosed (HonoSSEServerTransport_run ext (ops1 @ Start # ops2) h)"
proof -
  let ?h1 = "HonoSSEServerTransport_run ext ops1 h"
  have "writer (snd (HonoSSEServerTransport_start ?h1)) \<noteq> None
          \<or> isConnectionClosed (snd (HonoSSEServerTransport_start ?h1))"
    using hono_start_sets_writer [of ?h1] by blast
  then have "writer (HonoSSEServerTransport_run ext ops2
                 (snd (HonoSSEServerTransport_start ?h1))) \<noteq> None
          \<or> isConnectionClosed (HonoSSEServerTransport_run ext ops2
                 (snd (HonoSSEServerTransport_start ?h1)))"
    by (rule hono_run_once_started)
  then show ?thesis by (simp add: hono_run_append)
qed

text \<open>
  C5. Whatever was called before the first \<open>start()\<close> and whatever since, \<open>close()\<close> and the
  close event included, a further \<open>start()\<close> throws. On an \<open>SSEServerTransport\<close> it leaves
  the transport as it was. On a \<open>HonoSSEServerTransport\<close> it calls no callback, leaves the
  closed flag and the released streams as they were, and leaves \<open>_writer\<close> as it was or,
  on a closed transport, holding a new empty stream on which nothing can be written.
\<close>

theorem second_start_throws:
  "(\<exists>e. SSEServerTransport_start
          (SSEServerTransport_run ext (ops1 @ Start # ops2)
             (new_SSEServerTransport ep fresh_response uuid))
        = (Threw e,
           SSEServerTransport_run ext (ops1 @ Start # ops2)
             (new_SSEServerTransport ep fresh_response uuid)))
   \<and> (let h = HonoSSEServerTransport_run ext (ops1 @ Start # ops2)
                 (new_HonoSSEServerTransport ep uuid)
      in (\<exists>e. fst (HonoSSEServerTransport_start h) = Threw e)
         \<and> callbacks (snd (HonoSSEServerTransport_start h)) = callbacks h
         \<and> isConnectionClosed (snd (HonoSSEServerTransport_start h)) = isConnectionClosed h
         \<and> released (snd (HonoSSEServerTransport_start h)) = released h
         \<and> (writer (snd (HonoSSEServerTransport_start h)) = writer h
            \<or> (isConnectionClosed h
               \<and> writer (snd (HonoSSEServerTransport_start h)) = Some [])))"
  unfolding Let_def
  using sse_second_start_throws [of ext ops1 ops2 ep uuid]
    hono_restart [OF hono_once_started_after [of ext ops1 ops2 "new_HonoSSEServerTransport ep uuid"]]
  by (rule conjI)

subsection \<open>Before the first start\<close>







subsection \<open>What the streams hold\<close>








lemma sse_good_callbacks [simp]:
  "sse_good ext d (t\<lparr>callbacks := cs\<rparr>) = sse_good ext d t"
  by (simp add: sse_good_def)









lemma hono_good_callbacks [simp]:
  "hono_good ext d (h\<lparr>callbacks := cs\<rparr>) = hono_good ext d h"
  by (simp add: hono_good_def)








subsection \<open>The endpoint event\<close>






text \<open>
  Such a failed \<open>start\<close> of a \<open>HonoSSEServerTransport\<close> has already set \<open>_writer\<close>, so a
  \<open>send\<close> that follows writes a message frame on a stream that holds no endpoint frame.
\<close>

lemma hono_send_after_refused_start:
  assumes "encodeURI ep = Inl e"
  shows "hono_streams (snd (HonoSSEServerTransport_send ext
           (snd (HonoSSEServerTransport_start (new_HonoSSEServerTransport ep uuid))) m))
         = [[sse_frame ''message'' (JSON_stringify ext m)]]"
  using assms
  by (simp add: HonoSSEServerTransport_start_def HonoSSEServerTransport_send_def
        new_HonoSSEServerTransport_def writeEvent_def endpoint_data_def hono_streams_def)







end
